theory Spec2Isabelle
  imports Main "HOL-Library.Word"
begin

section \<open>Events, classifier replies and the outside world\<close>

text \<open>
  The two handlers of the repository, \<^verbatim>\<open>processImages\<close> (imageService.ts) and
  \<^verbatim>\<open>transcodeVideo\<close> (videoService.ts), are sequences of awaited calls to services that
  are not part of the repository: the storage bucket, the local file system of the
  function instance, the Vision and Video Intelligence clients, and the HTTP client.
  The embedding keeps the handlers' control flow as it is written and makes the
  services explicit: the bucket and the local files are maps, every call is recorded in
  a trace, and an environment fixes what the services answer.
\<close>

type_synonym bytes = "8 word list"

text \<open>The fields of the finalized object that the handlers read (\<^verbatim>\<open>obj.name\<close>,
  \<^verbatim>\<open>obj.bucket\<close>, \<^verbatim>\<open>obj.contentType\<close>); \<open>None\<close> is \<^verbatim>\<open>undefined\<close>.\<close>

record object_metadata =
  event_name :: "string option"
  event_bucket :: string
  event_contentType :: "string option"

text \<open>The reply of \<^verbatim>\<open>visionClient.safeSearchDetection\<close>: the image handler compares the
  two categories with string literals.\<close>

record safe_search_annotation =
  adult :: "string option"
  violence :: "string option"

record annotate_image_response =
  safeSearchAnnotation :: "safe_search_annotation option"

text \<open>The result of the awaited video annotation operation. The video handler reads
  \<^verbatim>\<open>frame.pornographyLikelihood as number\<close>, so the field is a number here
  (\<open>None\<close>: null or undefined).\<close>

record explicit_content_frame =
  pornographyLikelihood :: "int option"

record explicit_content_annotation =
  frames :: "explicit_content_frame list option"

record video_annotation_results =
  explicitAnnotation :: "explicit_content_annotation option"

record annotate_video_response =
  annotationResults :: "video_annotation_results list option"

text \<open>The request handed to \<^verbatim>\<open>axios\<close> in the transcode branch.\<close>

record copy_meta =
  meta_name :: string
  meta_path :: string
  meta_contentURI :: string
  meta_contentRef :: string

record copy_body =
  body_url :: string
  body_meta :: copy_meta

record http_request =
  req_method :: string
  req_url :: string
  req_headers :: "(string \<times> string) list"
  req_data :: copy_body

text \<open>Every call that leaves the handler, in the order it is made.\<close>

datatype action =
    Log "string list"
  | LogError error
  | SafeSearchDetection string
  | AnnotateVideo string "string list"
  | Delete string
  | Mkdirp string
  | Download string string
  | Upload string string
  | Unlink string
  | GetSignedUrl string string int
  | HttpPost http_request
and error =
    TypeError
  | Rejected action

text \<open>
  What the services answer and what the deployment binds. A reply of \<open>None\<close> is a
  rejected promise; \<open>rejects\<close> says which storage, file-system and HTTP calls fail for a
  reason of the service's own. The functions of Node's \<^verbatim>\<open>path\<close> and \<^verbatim>\<open>os\<close> modules are
  parameters.
\<close>

record env =
  safeSearchDetection_reply :: "string \<Rightarrow> annotate_image_response option"
  annotateVideo_reply :: "string \<Rightarrow> annotate_video_response option"
  getSignedUrl_reply :: "string \<Rightarrow> int \<Rightarrow> string option"
  rejects :: "action \<Rightarrow> bool"
  Date_now :: int
  os_tmpdir :: string
  path_join :: "string \<Rightarrow> string \<Rightarrow> string"
  path_dirname :: "string \<Rightarrow> string"
  path_basename :: "string \<Rightarrow> string \<Rightarrow> string"
  path_extname :: "string \<Rightarrow> string"
  path_format :: "string \<Rightarrow> string \<Rightarrow> string"
  cloudflareBaseURL :: string
  cloudflareAccountId :: string
  cloudflareApiToken :: string

text \<open>The state one invocation works on: the objects of the bucket, the files of the
  instance's local disk, and the calls made so far.\<close>

record world =
  bucket :: "string \<rightharpoonup> bytes"
  files :: "string \<rightharpoonup> bytes"
  trace :: "action list"

definition start :: "(string \<rightharpoonup> bytes) \<Rightarrow> (string \<rightharpoonup> bytes) \<Rightarrow> world" where
  "start b fs = \<lparr>bucket = b, files = fs, trace = []\<rparr>"

section \<open>Awaited calls: state and exceptions\<close>

type_synonym 'a io = "world \<Rightarrow> (error + 'a) \<times> world"

definition io_return :: "'a \<Rightarrow> 'a io" where
  "io_return x w = (Inr x, w)"

definition io_throw :: "error \<Rightarrow> 'a io" where
  "io_throw e w = (Inl e, w)"

definition io_bind :: "'a io \<Rightarrow> ('a \<Rightarrow> 'b io) \<Rightarrow> 'b io" where
  "io_bind m f w = (case m w of (Inl e, w') \<Rightarrow> (Inl e, w') | (Inr x, w') \<Rightarrow> f x w')"

definition io_catch :: "'a io \<Rightarrow> (error \<Rightarrow> 'a io) \<Rightarrow> 'a io" where
  "io_catch m h w = (case m w of (Inl e, w') \<Rightarrow> h e w' | (Inr x, w') \<Rightarrow> (Inr x, w'))"

definition call :: "action \<Rightarrow> unit io" where
  "call a w = (Inr (), w\<lparr>trace := trace w @ [a]\<rparr>)"

text \<open>\<^verbatim>\<open>rawBucket.file(p).delete()\<close>: fails when the service rejects it or when there is no
  such object.\<close>

definition file_delete :: "env \<Rightarrow> string \<Rightarrow> unit io" where
  "file_delete env p =
     io_bind (call (Delete p)) (\<lambda>_ w.
       if rejects env (Delete p) \<or> bucket w p = None then (Inl (Rejected (Delete p)), w)
       else (Inr (), w\<lparr>bucket := (bucket w)(p := None)\<rparr>))"

definition mkdirp :: "env \<Rightarrow> string \<Rightarrow> unit io" where
  "mkdirp env d =
     io_bind (call (Mkdirp d)) (\<lambda>_ w.
       if rejects env (Mkdirp d) then (Inl (Rejected (Mkdirp d)), w) else (Inr (), w))"

text \<open>\<^verbatim>\<open>rawBucket.file(src).download({ destination: dst })\<close>.\<close>

definition file_download :: "env \<Rightarrow> string \<Rightarrow> string \<Rightarrow> unit io" where
  "file_download env src dst =
     io_bind (call (Download src dst)) (\<lambda>_ w.
       case bucket w src of
         None \<Rightarrow> (Inl (Rejected (Download src dst)), w)
       | Some content \<Rightarrow>
           if rejects env (Download src dst) then (Inl (Rejected (Download src dst)), w)
           else (Inr (), w\<lparr>files := (files w)(dst \<mapsto> content)\<rparr>))"

text \<open>\<^verbatim>\<open>rawBucket.upload(src, { destination: dst, resumable: true })\<close>.\<close>

definition bucket_upload :: "env \<Rightarrow> string \<Rightarrow> string \<Rightarrow> unit io" where
  "bucket_upload env src dst =
     io_bind (call (Upload src dst)) (\<lambda>_ w.
       case files w src of
         None \<Rightarrow> (Inl (Rejected (Upload src dst)), w)
       | Some content \<Rightarrow>
           if rejects env (Upload src dst) then (Inl (Rejected (Upload src dst)), w)
           else (Inr (), w\<lparr>bucket := (bucket w)(dst \<mapsto> content)\<rparr>))"

text \<open>\<^verbatim>\<open>promisify(fs.unlink)(p)\<close>.\<close>

definition unlink :: "env \<Rightarrow> string \<Rightarrow> unit io" where
  "unlink env p =
     io_bind (call (Unlink p)) (\<lambda>_ w.
       if rejects env (Unlink p) \<or> files w p = None then (Inl (Rejected (Unlink p)), w)
       else (Inr (), w\<lparr>files := (files w)(p := None)\<rparr>))"

text \<open>\<^verbatim>\<open>uploadedFile.getSignedUrl({ action, expires })\<close>, then \<^verbatim>\<open>signedURLs[0]\<close>: the
  reply is a one-element tuple.\<close>

definition file_getSignedUrl :: "env \<Rightarrow> string \<Rightarrow> string \<Rightarrow> int \<Rightarrow> string io" where
  "file_getSignedUrl env p act expires =
     io_bind (call (GetSignedUrl p act expires)) (\<lambda>_ w.
       case getSignedUrl_reply env p expires of
         None \<Rightarrow> (Inl (Rejected (GetSignedUrl p act expires)), w)
       | Some u \<Rightarrow> (Inr u, w))"

definition axios :: "env \<Rightarrow> http_request \<Rightarrow> unit io" where
  "axios env req =
     io_bind (call (HttpPost req)) (\<lambda>_ w.
       if rejects env (HttpPost req) then (Inl (Rejected (HttpPost req)), w) else (Inr (), w))"

definition logger_log :: "string list \<Rightarrow> unit io" where
  "logger_log args = call (Log args)"

definition logger_error :: "error \<Rightarrow> unit io" where
  "logger_error e = call (LogError e)"

text \<open>\<^verbatim>\<open>s.startsWith(m)\<close>.\<close>

definition startsWith :: "string \<Rightarrow> string \<Rightarrow> bool" where
  "startsWith s m = (take (length m) s = m)"

section \<open>The classifiers' verdicts\<close>

subsection \<open>imageService.ts: \<^verbatim>\<open>imageSafeSearchDetection\<close>\<close>

text \<open>\<^verbatim>\<open>detections?.f\<close>: undefined when \<^verbatim>\<open>detections\<close> is null or undefined.\<close>

definition optional_chain :: "'a option \<Rightarrow> ('a \<Rightarrow> 'b option) \<Rightarrow> 'b option" where
  "optional_chain v f = (case v of None \<Rightarrow> None | Some d \<Rightarrow> f d)"

text \<open>The part of \<^verbatim>\<open>imageSafeSearchDetection\<close> after the awaited reply.\<close>

definition imageSafeSearchDetection_result :: "annotate_image_response \<Rightarrow> bool" where
  "imageSafeSearchDetection_result result =
     (let detections = safeSearchAnnotation result;
          adultContent =
            (optional_chain detections adult = Some ''POSSIBLE'' \<or>
             optional_chain detections adult = Some ''LIKELY'' \<or>
             optional_chain detections adult = Some ''VERY_LIKELY'');
          violenceContent =
            (optional_chain detections violence = Some ''POSSIBLE'' \<or>
             optional_chain detections violence = Some ''LIKELY'' \<or>
             optional_chain detections violence = Some ''VERY_LIKELY'')
      in adultContent \<or> violenceContent)"

definition imageSafeSearchDetection :: "env \<Rightarrow> string \<Rightarrow> bool io" where
  "imageSafeSearchDetection env gcsUri =
     io_bind (call (SafeSearchDetection gcsUri)) (\<lambda>_ w.
       case safeSearchDetection_reply env gcsUri of
         None \<Rightarrow> (Inl (Rejected (SafeSearchDetection gcsUri)), w)
       | Some result \<Rightarrow> (Inr (imageSafeSearchDetection_result result), w))"

subsection \<open>videoService.ts: \<^verbatim>\<open>videoSafeSearchDetection\<close>\<close>

definition likelihoods :: "string list" where
  "likelihoods =
     [''UNKNOWN'', ''VERY_UNLIKELY'', ''UNLIKELY'', ''POSSIBLE'', ''LIKELY'', ''VERY_LIKELY'']"

text \<open>\<^verbatim>\<open>likelihoods[v as number]\<close>: undefined outside the array, and for null or
  undefined.\<close>

definition likelihoods_at :: "int option \<Rightarrow> string option" where
  "likelihoods_at v =
     (case v of
        None \<Rightarrow> None
      | Some i \<Rightarrow>
          if 0 \<le> i \<and> i < int (length likelihoods) then Some (likelihoods ! nat i) else None)"

text \<open>\<^verbatim>\<open>!!v\<close> for a number, null or undefined.\<close>

definition truthy :: "int option \<Rightarrow> bool" where
  "truthy v = (case v of None \<Rightarrow> False | Some i \<Rightarrow> i \<noteq> 0)"

text \<open>The value the \<^verbatim>\<open>forEach\<close> callback assigns to \<^verbatim>\<open>isAdult\<close> for one frame.\<close>

definition frame_isAdult :: "explicit_content_frame \<Rightarrow> bool" where
  "frame_isAdult frame =
     ((truthy (pornographyLikelihood frame) \<and>
         likelihoods_at (pornographyLikelihood frame) = Some ''POSSIBLE'') \<or>
      (truthy (pornographyLikelihood frame) \<and>
         likelihoods_at (pornographyLikelihood frame) = Some ''LIKELY'') \<or>
      (truthy (pornographyLikelihood frame) \<and>
         likelihoods_at (pornographyLikelihood frame) = Some ''VERY_LIKELY''))"

text \<open>\<^verbatim>\<open>results.frames.forEach((frame) => { isAdult = ... })\<close>: the callback runs on every
  frame in order and assigns the variable each time.\<close>

definition forEach_frames :: "explicit_content_frame list \<Rightarrow> bool \<Rightarrow> bool" where
  "forEach_frames fs isAdult = fold (\<lambda>frame isAdult. frame_isAdult frame) fs isAdult"

text \<open>The part of \<^verbatim>\<open>videoSafeSearchDetection\<close> after the awaited operation. Reading
  \<^verbatim>\<open>explicitContentResults[0].explicitAnnotation\<close> of an empty array throws a
  TypeError.\<close>

definition videoSafeSearchDetection_result :: "annotate_video_response \<Rightarrow> error + bool" where
  "videoSafeSearchDetection_result operationResult =
     (let isAdult = False in
      case annotationResults operationResult of
        None \<Rightarrow> Inr isAdult
      | Some explicitContentResults \<Rightarrow>
          (case explicitContentResults of
             [] \<Rightarrow> Inl TypeError
           | first # _ \<Rightarrow>
               (case optional_chain (explicitAnnotation first) frames of
                  None \<Rightarrow> Inr isAdult
                | Some fs \<Rightarrow>
                    if length fs > 0 then Inr (forEach_frames fs isAdult) else Inr isAdult)))"

definition videoSafeSearchDetection :: "env \<Rightarrow> string \<Rightarrow> bool io" where
  "videoSafeSearchDetection env gcsUri =
     io_bind (call (AnnotateVideo gcsUri [''EXPLICIT_CONTENT_DETECTION''])) (\<lambda>_ w.
       case annotateVideo_reply env gcsUri of
         None \<Rightarrow> (Inl (Rejected (AnnotateVideo gcsUri [''EXPLICIT_CONTENT_DETECTION''])), w)
       | Some operationResult \<Rightarrow>
           (case videoSafeSearchDetection_result operationResult of
              Inl e \<Rightarrow> (Inl e, w)
            | Inr isAdult \<Rightarrow> (Inr isAdult, w)))"

section \<open>The handlers\<close>

definition REPLACEMENT_IMAGE_FILE_PATH :: string where
  "REPLACEMENT_IMAGE_FILE_PATH = ''prohibited.png''"

definition REPLACEMENT_VIDEO_FILE_PATH :: string where
  "REPLACEMENT_VIDEO_FILE_PATH = ''annotate.mp4''"

text \<open>\<^verbatim>\<open>!contentType?.startsWith(m)\<close> is false only for a string that starts with
  \<open>m\<close>.\<close>

definition optional_startsWith :: "string option \<Rightarrow> string \<Rightarrow> bool" where
  "optional_startsWith s m = (case s of None \<Rightarrow> False | Some t \<Rightarrow> startsWith t m)"

text \<open>The block both handlers run when the content is flagged (imageService.ts lines
  55 to 83, videoService.ts lines 79 to 107 of the second file): the two copies differ in
  the replacement path only.\<close>

definition replaceFlagged :: "env \<Rightarrow> string \<Rightarrow> string \<Rightarrow> unit io" where
  "replaceFlagged env replacement filePath =
     io_bind (logger_log [''Adult or violent content detected'']) (\<lambda>_.
     io_bind (file_delete env filePath) (\<lambda>_.
     let tempFilePath = path_join env (os_tmpdir env) filePath;
         tempFileDir = path_dirname env tempFilePath
     in
     io_bind (mkdirp env tempFileDir) (\<lambda>_.
     io_bind (file_download env replacement tempFilePath) (\<lambda>_.
     io_bind (logger_log [''The replacement file has been downloaded to: '', tempFilePath]) (\<lambda>_.
     io_bind (bucket_upload env tempFilePath filePath) (\<lambda>_.
     io_bind (logger_log [''Uploaded the replacement file to: '', filePath]) (\<lambda>_.
     io_bind (unlink env tempFilePath) (\<lambda>_.
     logger_log [''Unlinked the downloaded file from: '', tempFilePath]))))))))"

text \<open>The handler of \<^verbatim>\<open>processImages\<close>. \<^verbatim>\<open>!filePath\<close> holds for undefined and for the
  empty string. The result \<open>Inr ()\<close> is \<^verbatim>\<open>return null\<close>; \<open>Inl e\<close> is the rethrown
  exception.\<close>

definition processImages :: "env \<Rightarrow> object_metadata \<Rightarrow> unit io" where
  "processImages env obj =
     io_catch
       (case event_name obj of
          None \<Rightarrow> io_bind (logger_log [''Object not found'']) (\<lambda>_. io_return ())
        | Some filePath \<Rightarrow>
            if filePath = [] then
              io_bind (logger_log [''Object not found'']) (\<lambda>_. io_return ())
            else if \<not> optional_startsWith (event_contentType obj) ''image/'' then
              io_bind (logger_log [''Only format images'']) (\<lambda>_. io_return ())
            else
              io_bind (imageSafeSearchDetection env
                         (''gs://'' @ event_bucket obj @ ''/'' @ filePath)) (\<lambda>isDetected.
              io_bind (if isDetected
                       then replaceFlagged env REPLACEMENT_IMAGE_FILE_PATH filePath
                       else io_return ()) (\<lambda>_.
              io_bind (logger_log [''Processing image finished'']) (\<lambda>_.
              io_return ()))))
       (\<lambda>error. io_bind (logger_error error) (\<lambda>_. io_throw error))"

text \<open>The else branch of \<^verbatim>\<open>transcodeVideo\<close>: the signed URL and the POST to the
  transcoding service.\<close>

definition requestTranscode :: "env \<Rightarrow> string \<Rightarrow> unit io" where
  "requestTranscode env filePath =
     (let baseName = path_basename env filePath (path_extname env filePath);
          extName = path_extname env filePath;
          fileName = path_format env baseName extName
      in
      io_bind (file_getSignedUrl env filePath ''read'' (Date_now env + 1000 * 60 * 60))
        (\<lambda>downloadURL.
      axios env
        \<lparr>req_method = ''POST'',
         req_url = cloudflareBaseURL env @ ''/'' @ cloudflareAccountId env @ ''/stream/copy'',
         req_headers =
           [(''Authorization'', ''Bearer '' @ cloudflareApiToken env),
            (''Content-Type'', ''application/json'')],
         req_data =
           \<lparr>body_url = downloadURL,
            body_meta =
              \<lparr>meta_name = fileName,
               meta_path = filePath,
               meta_contentURI = downloadURL,
               meta_contentRef = filePath\<rparr>\<rparr>\<rparr>))"

definition transcodeVideo :: "env \<Rightarrow> object_metadata \<Rightarrow> unit io" where
  "transcodeVideo env obj =
     io_catch
       (case event_name obj of
          None \<Rightarrow> io_bind (logger_log [''Object not found'']) (\<lambda>_. io_return ())
        | Some filePath \<Rightarrow>
            if filePath = [] then
              io_bind (logger_log [''Object not found'']) (\<lambda>_. io_return ())
            else if \<not> optional_startsWith (event_contentType obj) ''video/'' then
              io_bind (logger_log [''Only transcode videos'']) (\<lambda>_. io_return ())
            else
              io_bind (videoSafeSearchDetection env
                         (''gs://'' @ event_bucket obj @ ''/'' @ filePath)) (\<lambda>isAdult.
              io_bind (if isAdult
                       then replaceFlagged env REPLACEMENT_VIDEO_FILE_PATH filePath
                       else requestTranscode env filePath) (\<lambda>_.
              io_bind (logger_log [''Processing video finished'']) (\<lambda>_.
              io_return ()))))
       (\<lambda>error. io_bind (logger_error error) (\<lambda>_. io_throw error))"

section \<open>Vocabulary of the properties\<close>

text \<open>The event carries the path \<open>p\<close> and a content type that starts with the marker.\<close>

definition passes_guard :: "string \<Rightarrow> object_metadata \<Rightarrow> string \<Rightarrow> bool" where
  "passes_guard marker obj p =
     (event_name obj = Some p \<and> p \<noteq> [] \<and>
      (\<exists>rest. event_contentType obj = Some (marker @ rest)))"

definition path_absent :: "object_metadata \<Rightarrow> bool" where
  "path_absent obj = (event_name obj = None \<or> event_name obj = Some [])"

definition lacks_marker :: "string \<Rightarrow> object_metadata \<Rightarrow> bool" where
  "lacks_marker marker obj = (\<nexists>rest. event_contentType obj = Some (marker @ rest))"

definition gcs_uri :: "object_metadata \<Rightarrow> string \<Rightarrow> string" where
  "gcs_uri obj p = ''gs://'' @ event_bucket obj @ ''/'' @ p"

text \<open>The likelihood levels that flag content, and those that do not.\<close>

definition flagging :: "string set" where
  "flagging = {''POSSIBLE'', ''LIKELY'', ''VERY_LIKELY''}"

definition quiet :: "string set" where
  "quiet = {''UNKNOWN'', ''VERY_UNLIKELY'', ''UNLIKELY''}"

text \<open>The decision rule of the specification for videos: some frame is at a flagging
  level.\<close>

definition any_frame_flagged :: "explicit_content_frame list \<Rightarrow> bool" where
  "any_frame_flagged fs =
     list_ex (\<lambda>f. likelihoods_at (pornographyLikelihood f) \<in> Some ` flagging) fs"

definition video_frames_response :: "explicit_content_frame list option \<Rightarrow> annotate_video_response" where
  "video_frames_response fs =
     \<lparr>annotationResults = Some [\<lparr>explicitAnnotation = Some \<lparr>frames = fs\<rparr>\<rparr>]\<rparr>"

fun is_storage_mutation :: "action \<Rightarrow> bool" where
  "is_storage_mutation (Delete p) = True"
| "is_storage_mutation (Upload src dst) = True"
| "is_storage_mutation a = False"

text \<open>The calls that move or remove bytes: on the bucket, and on the temporary file.\<close>

fun is_transfer :: "action \<Rightarrow> bool" where
  "is_transfer (Delete p) = True"
| "is_transfer (Download src dst) = True"
| "is_transfer (Upload src dst) = True"
| "is_transfer (Unlink p) = True"
| "is_transfer a = False"

fun is_post :: "action \<Rightarrow> bool" where
  "is_post (HttpPost req) = True"
| "is_post a = False"

text \<open>The calls that touch the object at path \<open>q\<close> other than by reading it.\<close>

fun mutates :: "string \<Rightarrow> action \<Rightarrow> bool" where
  "mutates q (Delete p) = (p = q)"
| "mutates q (Upload src dst) = (dst = q)"
| "mutates q a = False"

text \<open>What the end of the \<^verbatim>\<open>try\<close> block and the \<^verbatim>\<open>catch\<close> clause add to the outcome
  of the branch that ran: the closing log line, or the logged and rethrown error.\<close>

definition finish :: "string \<Rightarrow> (error + unit) \<times> world \<Rightarrow> (error + unit) \<times> world" where
  "finish msg r =
     (case r of
        (Inl e, w) \<Rightarrow> (Inl e, w\<lparr>trace := trace w @ [LogError e]\<rparr>)
      | (Inr u, w) \<Rightarrow> (Inr (), w\<lparr>trace := trace w @ [Log [msg]]\<rparr>))"


text \<open>A reply without frames to look at: no annotation results at all, or a first result
  whose explicit annotation or frame list is missing or empty.\<close>

definition no_frames :: "annotate_video_response \<Rightarrow> bool" where
  "no_frames r =
     (case annotationResults r of
        None \<Rightarrow> True
      | Some [] \<Rightarrow> False
      | Some (first # rest) \<Rightarrow>
          (case explicitAnnotation first of
             None \<Rightarrow> True
           | Some a \<Rightarrow> frames a = None \<or> frames a = Some []))"

text \<open>The frames a reply reports for the video: those of its first annotation result,
  none when a part of the reply is missing.\<close>

definition reply_frames :: "annotate_video_response \<Rightarrow> explicit_content_frame list" where
  "reply_frames r =
     (case annotationResults r of
        Some (first # rest) \<Rightarrow>
          (case explicitAnnotation first of
             Some a \<Rightarrow> (case frames a of Some fs \<Rightarrow> fs | None \<Rightarrow> [])
           | None \<Rightarrow> [])
      | _ \<Rightarrow> [])"

text \<open>What a service answers to one call. Logging has no answer to wait for.\<close>

datatype reply =
    Resolved
  | Failed
  | ImageReply "annotate_image_response option"
  | VideoReply "annotate_video_response option"
  | UrlReply "string option"

fun answer :: "env \<Rightarrow> action \<Rightarrow> reply" where
  "answer env (SafeSearchDetection uri) = ImageReply (safeSearchDetection_reply env uri)"
| "answer env (AnnotateVideo uri features) = VideoReply (annotateVideo_reply env uri)"
| "answer env (GetSignedUrl p act expires) = UrlReply (getSignedUrl_reply env p expires)"
| "answer env (Log args) = Resolved"
| "answer env (LogError e) = Resolved"
| "answer env a = (if rejects env a then Failed else Resolved)"

text \<open>Two environments are one deployment at one instant: the same clock value, the same
  \<^verbatim>\<open>path\<close> and \<^verbatim>\<open>os\<close> functions and the same configuration values.\<close>

definition same_deployment :: "env \<Rightarrow> env \<Rightarrow> bool" where
  "same_deployment e1 e2 =
     (Date_now e1 = Date_now e2 \<and> os_tmpdir e1 = os_tmpdir e2 \<and>
      path_join e1 = path_join e2 \<and> path_dirname e1 = path_dirname e2 \<and>
      path_basename e1 = path_basename e2 \<and> path_extname e1 = path_extname e2 \<and>
      path_format e1 = path_format e2 \<and>
      cloudflareBaseURL e1 = cloudflareBaseURL e2 \<and>
      cloudflareAccountId e1 = cloudflareAccountId e2 \<and>
      cloudflareApiToken e1 = cloudflareApiToken e2)"

text \<open>The services of two environments answer every call of the list alike.\<close>

definition same_answers :: "env \<Rightarrow> env \<Rightarrow> action list \<Rightarrow> bool" where
  "same_answers e1 e2 calls = list_all (\<lambda>a. answer e1 a = answer e2 a) calls"

subsection \<open>A concrete deployment for the examples\<close>

definition demo_basename :: "string \<Rightarrow> string" where
  "demo_basename p = rev (takeWhile (\<lambda>c. c \<noteq> CHR ''/'') (rev p))"

definition demo_extname :: "string \<Rightarrow> string" where
  "demo_extname p =
     (if CHR ''.'' \<in> set (demo_basename p)
      then CHR ''.'' # rev (takeWhile (\<lambda>c. c \<noteq> CHR ''.'') (rev p)) else [])"

definition demo_env :: "annotate_image_response \<Rightarrow> annotate_video_response \<Rightarrow> env" where
  "demo_env image_reply video_reply =
     \<lparr>safeSearchDetection_reply = (\<lambda>uri. Some image_reply),
      annotateVideo_reply = (\<lambda>uri. Some video_reply),
      getSignedUrl_reply = (\<lambda>p expires. Some (''https://signed.example/'' @ p)),
      rejects = (\<lambda>a. False),
      Date_now = 1700000000000,
      os_tmpdir = ''/tmp'',
      path_join = (\<lambda>a b. a @ ''/'' @ b),
      path_dirname = (\<lambda>p. rev (drop 1 (dropWhile (\<lambda>c. c \<noteq> CHR ''/'') (rev p)))),
      path_basename =
        (\<lambda>p ext. take (length (demo_basename p) - length ext) (demo_basename p)),
      path_extname = demo_extname,
      path_format = (\<lambda>name ext. name @ ext),
      cloudflareBaseURL = ''https://api.example/accounts'',
      cloudflareAccountId = ''acct'',
      cloudflareApiToken = ''token''\<rparr>"

definition demo_image_reply :: "string \<Rightarrow> string \<Rightarrow> annotate_image_response" where
  "demo_image_reply a v =
     \<lparr>safeSearchAnnotation = Some \<lparr>adult = Some a, violence = Some v\<rparr>\<rparr>"

definition demo_bucket :: "string \<rightharpoonup> bytes" where
  "demo_bucket =
     [''a.png'' \<mapsto> [1, 2, 3], ''prohibited.png'' \<mapsto> [9, 9],
      ''clip.mp4'' \<mapsto> [4, 5], ''annotate.mp4'' \<mapsto> [7]]"

definition demo_image :: object_metadata where
  "demo_image =
     \<lparr>event_name = Some ''a.png'', event_bucket = ''media'',
      event_contentType = Some ''image/png''\<rparr>"

definition demo_video :: object_metadata where
  "demo_video =
     \<lparr>event_name = Some ''clip.mp4'', event_bucket = ''media'',
      event_contentType = Some ''video/mp4''\<rparr>"

definition demo_request :: http_request where
  "demo_request =
     \<lparr>req_method = ''POST'',
      req_url = ''https://api.example/accounts/acct/stream/copy'',
      req_headers =
        [(''Authorization'', ''Bearer token''), (''Content-Type'', ''application/json'')],
      req_data =
        \<lparr>body_url = ''https://signed.example/clip.mp4'',
         body_meta =
           \<lparr>meta_name = ''clip.mp4'', meta_path = ''clip.mp4'',
            meta_contentURI = ''https://signed.example/clip.mp4'',
            meta_contentRef = ''clip.mp4''\<rparr>\<rparr>\<rparr>"

section \<open>What a run of each handler is\<close>

lemmas io_defs = io_return_def io_throw_def io_bind_def io_catch_def call_def
  logger_log_def logger_error_def

text \<open>The flagged block, step by step: every way it can stop, with the state it leaves.\<close>

lemma replaceFlagged_eq:
  "replaceFlagged env ph p w =
    (let tmp = path_join env (os_tmpdir env) p;
         dir = path_dirname env tmp;
         t0 = trace w @ [Log [''Adult or violent content detected''], Delete p]
     in
     if rejects env (Delete p) \<or> bucket w p = None then
       (Inl (Rejected (Delete p)), w\<lparr>trace := t0\<rparr>)
     else if rejects env (Mkdirp dir) then
       (Inl (Rejected (Mkdirp dir)),
        w\<lparr>bucket := (bucket w)(p := None), trace := t0 @ [Mkdirp dir]\<rparr>)
     else if ph = p \<or> bucket w ph = None \<or> rejects env (Download ph tmp) then
       (Inl (Rejected (Download ph tmp)),
        w\<lparr>bucket := (bucket w)(p := None), trace := t0 @ [Mkdirp dir, Download ph tmp]\<rparr>)
     else if rejects env (Upload tmp p) then
       (Inl (Rejected (Upload tmp p)),
        w\<lparr>bucket := (bucket w)(p := None), files := (files w)(tmp := bucket w ph),
          trace := t0 @ [Mkdirp dir, Download ph tmp,
             Log [''The replacement file has been downloaded to: '', tmp], Upload tmp p]\<rparr>)
     else if rejects env (Unlink tmp) then
       (Inl (Rejected (Unlink tmp)),
        w\<lparr>bucket := (bucket w)(p := bucket w ph), files := (files w)(tmp := bucket w ph),
          trace := t0 @ [Mkdirp dir, Download ph tmp,
             Log [''The replacement file has been downloaded to: '', tmp], Upload tmp p,
             Log [''Uploaded the replacement file to: '', p], Unlink tmp]\<rparr>)
     else
       (Inr (),
        w\<lparr>bucket := (bucket w)(p := bucket w ph), files := (files w)(tmp := None),
          trace := t0 @ [Mkdirp dir, Download ph tmp,
             Log [''The replacement file has been downloaded to: '', tmp], Upload tmp p,
             Log [''Uploaded the replacement file to: '', p], Unlink tmp,
             Log [''Unlinked the downloaded file from: '', tmp]]\<rparr>))"
  by (auto simp: replaceFlagged_def io_defs file_delete_def mkdirp_def file_download_def
        bucket_upload_def unlink_def Let_def split: option.splits)

lemma optional_startsWith_iff:
  "optional_startsWith s m = (\<exists>rest. s = Some (m @ rest))"
  apply (cases s)
   apply (simp_all add: optional_startsWith_def startsWith_def)
  by (metis append_eq_conv_conj append_take_drop_id)

lemma passes_guardD:
  "passes_guard marker obj p \<Longrightarrow>
     event_name obj = Some p \<and> p \<noteq> [] \<and> optional_startsWith (event_contentType obj) marker"
  by (auto simp: passes_guard_def optional_startsWith_iff)

lemma guard_cases:
  "(\<exists>p. passes_guard marker obj p) \<or> path_absent obj \<or> lacks_marker marker obj"
  by (cases "event_name obj") (auto simp: passes_guard_def path_absent_def lacks_marker_def)

lemma processImages_rejected:
  "path_absent obj \<or> lacks_marker ''image/'' obj \<Longrightarrow>
      processImages env obj (start b fs) =
        (Inr (), \<lparr>bucket = b, files = fs,
                  trace = [Log [if path_absent obj then ''Object not found''
                                else ''Only format images'']]\<rparr>)"
  by (auto simp: path_absent_def lacks_marker_def processImages_def
        io_defs start_def optional_startsWith_iff split: option.splits)

lemma transcodeVideo_rejected:
  "path_absent obj \<or> lacks_marker ''video/'' obj \<Longrightarrow>
      transcodeVideo env obj (start b fs) =
        (Inr (), \<lparr>bucket = b, files = fs,
                  trace = [Log [if path_absent obj then ''Object not found''
                                else ''Only transcode videos'']]\<rparr>)"
  by (auto simp: path_absent_def lacks_marker_def transcodeVideo_def
        io_defs start_def optional_startsWith_iff split: option.splits)

lemma processImages_accepted:
  assumes "passes_guard ''image/'' obj p"
  shows "processImages env obj (start b fs) =
     (case safeSearchDetection_reply env (gcs_uri obj p) of
        None \<Rightarrow>
          (Inl (Rejected (SafeSearchDetection (gcs_uri obj p))),
           \<lparr>bucket = b, files = fs,
            trace = [SafeSearchDetection (gcs_uri obj p),
                     LogError (Rejected (SafeSearchDetection (gcs_uri obj p)))]\<rparr>)
      | Some r \<Rightarrow>
          finish ''Processing image finished''
            (if imageSafeSearchDetection_result r
             then replaceFlagged env REPLACEMENT_IMAGE_FILE_PATH p
                    \<lparr>bucket = b, files = fs, trace = [SafeSearchDetection (gcs_uri obj p)]\<rparr>
             else (Inr (), \<lparr>bucket = b, files = fs,
                             trace = [SafeSearchDetection (gcs_uri obj p)]\<rparr>)))"
  using passes_guardD [OF assms]
  by (auto simp: processImages_def imageSafeSearchDetection_def io_defs start_def gcs_uri_def
        finish_def split: option.splits prod.splits sum.splits)

lemma requestTranscode_eq:
  "requestTranscode env p w =
     (let expires = Date_now env + 3600000;
          t1 = trace w @ [GetSignedUrl p ''read'' expires]
      in case getSignedUrl_reply env p expires of
        None \<Rightarrow> (Inl (Rejected (GetSignedUrl p ''read'' expires)), w\<lparr>trace := t1\<rparr>)
      | Some u \<Rightarrow>
         (let req = \<lparr>req_method = ''POST'',
                     req_url = cloudflareBaseURL env @ ''/'' @ cloudflareAccountId env @ ''/stream/copy'',
                     req_headers =
                       [(''Authorization'', ''Bearer '' @ cloudflareApiToken env),
                        (''Content-Type'', ''application/json'')],
                     req_data =
                       \<lparr>body_url = u,
                        body_meta =
                          \<lparr>meta_name = path_format env
                              (path_basename env p (path_extname env p)) (path_extname env p),
                           meta_path = p,
                           meta_contentURI = u,
                           meta_contentRef = p\<rparr>\<rparr>\<rparr>
          in (if rejects env (HttpPost req) then Inl (Rejected (HttpPost req)) else Inr (),
              w\<lparr>trace := t1 @ [HttpPost req]\<rparr>)))"
  by (auto simp: requestTranscode_def file_getSignedUrl_def axios_def io_defs Let_def
        split: option.splits)

lemma transcodeVideo_accepted:
  assumes "passes_guard ''video/'' obj p"
  shows "transcodeVideo env obj (start b fs) =
     (let call0 = AnnotateVideo (gcs_uri obj p) [''EXPLICIT_CONTENT_DETECTION''];
          w0 = \<lparr>bucket = b, files = fs, trace = [call0]\<rparr>
      in
      case annotateVideo_reply env (gcs_uri obj p) of
        None \<Rightarrow> finish [] (Inl (Rejected call0), w0)
      | Some r \<Rightarrow>
          (case videoSafeSearchDetection_result r of
             Inl e \<Rightarrow> finish [] (Inl e, w0)
           | Inr isAdult \<Rightarrow>
               finish ''Processing video finished''
                 (if isAdult then replaceFlagged env REPLACEMENT_VIDEO_FILE_PATH p w0
                  else requestTranscode env p w0)))"
  using passes_guardD [OF assms]
  by (auto simp: transcodeVideo_def videoSafeSearchDetection_def io_defs start_def gcs_uri_def
        finish_def Let_def split: option.splits prod.splits sum.splits)

section \<open>The decision rules\<close>

lemma image_result_iff:
  "imageSafeSearchDetection_result r \<longleftrightarrow>
      (\<exists>d. safeSearchAnnotation r = Some d \<and>
           (adult d \<in> Some ` flagging \<or> violence d \<in> Some ` flagging))"
  by (cases "safeSearchAnnotation r")
     (auto simp: imageSafeSearchDetection_result_def optional_chain_def flagging_def Let_def)

lemma quiet_not_flagging: "x \<in> Some ` quiet \<Longrightarrow> x \<notin> Some ` flagging"
  by (auto simp: quiet_def flagging_def)


section \<open>The guard\<close>

text \<open>
  C3. When the object path is absent (undefined or empty) or the content type does not
  start with the handler's marker, a run of either handler returns null, leaves the
  bucket and the local files as they were, and its only call is one log line: no storage
  call, no classifier call, no HTTP request.
\<close>

theorem guard_failure_is_noop:
  "(path_absent obj \<or> lacks_marker ''image/'' obj \<longrightarrow>
      processImages env obj (start b fs) =
        (Inr (), \<lparr>bucket = b, files = fs,
                  trace = [Log [if path_absent obj then ''Object not found''
                                else ''Only format images'']]\<rparr>)) \<and>
   (path_absent obj \<or> lacks_marker ''video/'' obj \<longrightarrow>
      transcodeVideo env obj (start b fs) =
        (Inr (), \<lparr>bucket = b, files = fs,
                  trace = [Log [if path_absent obj then ''Object not found''
                                else ''Only transcode videos'']]\<rparr>))"
  using processImages_rejected [of obj env b fs] transcodeVideo_rejected [of obj env b fs]
  by blast

theorem guard_failure_is_noop_witness:
  "processImages (demo_env (demo_image_reply ''LIKELY'' ''LIKELY'') (video_frames_response None))
     demo_video (start demo_bucket Map.empty) =
     (Inr (), \<lparr>bucket = demo_bucket, files = Map.empty, trace = [Log [''Only format images'']]\<rparr>) \<and>
   transcodeVideo (demo_env (demo_image_reply ''LIKELY'' ''LIKELY'') (video_frames_response None))
     (demo_video\<lparr>event_name := None\<rparr>) (start demo_bucket Map.empty) =
     (Inr (), \<lparr>bucket = demo_bucket, files = Map.empty, trace = [Log [''Object not found'']]\<rparr>)"
  using guard_failure_is_noop [of demo_video
      "demo_env (demo_image_reply ''LIKELY'' ''LIKELY'') (video_frames_response None)"
      demo_bucket Map.empty]
    guard_failure_is_noop [of "demo_video\<lparr>event_name := None\<rparr>"
      "demo_env (demo_image_reply ''LIKELY'' ''LIKELY'') (video_frames_response None)"
      demo_bucket Map.empty]
  by (simp add: demo_video_def path_absent_def lacks_marker_def)

section \<open>Evaluating the examples\<close>

lemma demo_image_passes: "passes_guard ''image/'' demo_image ''a.png''"
  by (simp add: passes_guard_def demo_image_def)

lemma demo_video_passes: "passes_guard ''video/'' demo_video ''clip.mp4''"
  by (simp add: passes_guard_def demo_video_def)

lemmas demo_defs = demo_env_def demo_image_reply_def demo_bucket_def video_frames_response_def
  REPLACEMENT_IMAGE_FILE_PATH_def REPLACEMENT_VIDEO_FILE_PATH_def gcs_uri_def

lemmas verdict_defs = imageSafeSearchDetection_result_def videoSafeSearchDetection_result_def
  optional_chain_def forEach_frames_def frame_isAdult_def truthy_def likelihoods_at_def
  likelihoods_def

lemma demo_event_simps:
  "event_bucket demo_image = ''media''" "event_bucket demo_video = ''media''"
  by (simp_all add: demo_image_def demo_video_def)

section \<open>What a run leaves untouched\<close>

lemma replaceFlagged_frame:
  "q \<noteq> p \<Longrightarrow>
     bucket (snd (finish msg (replaceFlagged env ph p w))) q = bucket w q \<and>
     list_ex (mutates q) (trace (snd (finish msg (replaceFlagged env ph p w)))) =
       list_ex (mutates q) (trace w)"
  by (auto simp: replaceFlagged_eq finish_def Let_def)

lemma requestTranscode_frame:
  "bucket (snd (finish msg (requestTranscode env p w))) = bucket w \<and>
   files (snd (finish msg (requestTranscode env p w))) = files w \<and>
   list_ex (mutates q) (trace (snd (finish msg (requestTranscode env p w)))) =
       list_ex (mutates q) (trace w) \<and>
   list_ex is_storage_mutation (trace (snd (finish msg (requestTranscode env p w)))) =
       list_ex is_storage_mutation (trace w)"
  by (auto simp: requestTranscode_eq finish_def Let_def split: option.splits)

lemma processImages_frame:
  assumes "event_name obj \<noteq> Some q"
  shows "bucket (snd (processImages env obj (start b fs))) q = b q \<and>
         \<not> list_ex (mutates q) (trace (snd (processImages env obj (start b fs))))"
proof -
  from guard_cases [of "''image/''" obj]
  consider p where "passes_guard ''image/'' obj p"
    | "path_absent obj \<or> lacks_marker ''image/'' obj" by blast
  then show ?thesis
  proof cases
    case 1
    with assms have "q \<noteq> p" by (auto simp: passes_guard_def)
    then show ?thesis
      using replaceFlagged_frame [of q p "''Processing image finished''" env
          REPLACEMENT_IMAGE_FILE_PATH
          "\<lparr>bucket = b, files = fs, trace = [SafeSearchDetection (gcs_uri obj p)]\<rparr>"]
      by (simp add: processImages_accepted [OF 1] split: option.splits) (simp add: finish_def)
  next
    case 2
    then show ?thesis by (simp add: processImages_rejected)
  qed
qed

lemma transcodeVideo_frame:
  assumes "event_name obj \<noteq> Some q"
  shows "bucket (snd (transcodeVideo env obj (start b fs))) q = b q \<and>
         \<not> list_ex (mutates q) (trace (snd (transcodeVideo env obj (start b fs))))"
proof -
  from guard_cases [of "''video/''" obj]
  consider p where "passes_guard ''video/'' obj p"
    | "path_absent obj \<or> lacks_marker ''video/'' obj" by blast
  then show ?thesis
  proof cases
    case 1
    with assms have "q \<noteq> p" by (auto simp: passes_guard_def)
    then show ?thesis
      using replaceFlagged_frame [of q p "''Processing video finished''" env
          REPLACEMENT_VIDEO_FILE_PATH
          "\<lparr>bucket = b, files = fs,
            trace = [AnnotateVideo (gcs_uri obj p) [''EXPLICIT_CONTENT_DETECTION'']]\<rparr>"]
        requestTranscode_frame [of "''Processing video finished''" env p
          "\<lparr>bucket = b, files = fs,
            trace = [AnnotateVideo (gcs_uri obj p) [''EXPLICIT_CONTENT_DETECTION'']]\<rparr>" q]
      by (simp add: transcodeVideo_accepted [OF 1] Let_def split: option.splits sum.splits)
         (simp add: finish_def)
  next
    case 2
    then show ?thesis by (simp add: transcodeVideo_rejected)
  qed
qed

lemma replaceFlagged_no_post:
  "list_ex is_post (trace (snd (finish msg (replaceFlagged env ph p w)))) =
     list_ex is_post (trace w)"
  by (auto simp: replaceFlagged_eq finish_def Let_def)

lemma replaceFlagged_succeeds_iff:
  "fst (replaceFlagged env ph p w) = Inr () \<longleftrightarrow>
     (let tmp = path_join env (os_tmpdir env) p in
      \<not> rejects env (Delete p) \<and> bucket w p \<noteq> None \<and>
      \<not> rejects env (Mkdirp (path_dirname env tmp)) \<and>
      ph \<noteq> p \<and> bucket w ph \<noteq> None \<and> \<not> rejects env (Download ph tmp) \<and>
      \<not> rejects env (Upload tmp p) \<and> \<not> rejects env (Unlink tmp))"
  by (simp add: replaceFlagged_eq Let_def)

lemma replaceFlagged_success_bucket:
  "fst (replaceFlagged env ph p w) = Inr () \<Longrightarrow>
     bucket (snd (replaceFlagged env ph p w)) = (bucket w)(p := bucket w ph)"
  by (simp add: replaceFlagged_eq Let_def split: if_splits)

lemma replaceFlagged_steps:
  "(let tmp = path_join env (os_tmpdir env) p;
        dir = path_dirname env tmp;
        run = finish msg (replaceFlagged env ph p \<lparr>bucket = b, files = fs, trace = [c]\<rparr>);
        deleted = (\<not> rejects env (Delete p) \<and> b p \<noteq> None);
        made = (deleted \<and> \<not> rejects env (Mkdirp dir));
        downloaded = (made \<and> ph \<noteq> p \<and> b ph \<noteq> None \<and> \<not> rejects env (Download ph tmp));
        uploaded = (downloaded \<and> \<not> rejects env (Upload tmp p))
    in (c \<noteq> Unlink tmp \<longrightarrow> (Unlink tmp \<in> set (trace (snd run))) = uploaded) \<and>
       fst run =
         (if \<not> deleted then Inl (Rejected (Delete p))
          else if \<not> made then Inl (Rejected (Mkdirp dir))
          else if \<not> downloaded then Inl (Rejected (Download ph tmp))
          else if \<not> uploaded then Inl (Rejected (Upload tmp p))
          else if rejects env (Unlink tmp) then Inl (Rejected (Unlink tmp))
          else Inr ()) \<and>
       files (snd run) =
         (if uploaded \<and> \<not> rejects env (Unlink tmp) then fs(tmp := None)
          else if downloaded then fs(tmp := b ph)
          else fs) \<and>
       (\<forall>e. fst run = Inl e \<longrightarrow> last (trace (snd run)) = LogError e))"
  by (auto simp: replaceFlagged_eq finish_def Let_def)

lemma processImages_mutates_iff:
  "list_ex (mutates q) (trace (snd (processImages env obj (start b fs)))) =
     (passes_guard ''image/'' obj q \<and>
      (\<exists>r. safeSearchDetection_reply env (gcs_uri obj q) = Some r \<and>
           imageSafeSearchDetection_result r))"
proof (cases "passes_guard ''image/'' obj q")
  case True
  then show ?thesis
    using processImages_accepted [OF True, of env b fs]
    by (auto simp: replaceFlagged_eq finish_def Let_def split: option.splits)
next
  case False
  then have "event_name obj \<noteq> Some q \<or> path_absent obj \<or> lacks_marker ''image/'' obj"
    by (auto simp: passes_guard_def path_absent_def lacks_marker_def)
  then show ?thesis
    using False processImages_frame [of obj q env b fs]
    by (auto simp: processImages_rejected)
qed

lemma transcodeVideo_mutates_iff:
  "list_ex (mutates q) (trace (snd (transcodeVideo env obj (start b fs)))) =
     (passes_guard ''video/'' obj q \<and>
      (\<exists>r. annotateVideo_reply env (gcs_uri obj q) = Some r \<and>
           videoSafeSearchDetection_result r = Inr True))"
proof (cases "passes_guard ''video/'' obj q")
  case True
  then show ?thesis
    using transcodeVideo_accepted [OF True, of env b fs]
    by (auto simp: replaceFlagged_eq requestTranscode_eq finish_def Let_def
          split: option.splits sum.splits)
next
  case False
  then have "event_name obj \<noteq> Some q \<or> path_absent obj \<or> lacks_marker ''video/'' obj"
    by (auto simp: passes_guard_def path_absent_def lacks_marker_def)
  then show ?thesis
    using False transcodeVideo_frame [of obj q env b fs]
    by (auto simp: transcodeVideo_rejected)
qed

lemma processImages_unmutated:
  "\<not> list_ex (mutates q) (trace (snd (processImages env obj (start b fs)))) \<Longrightarrow>
     bucket (snd (processImages env obj (start b fs))) q = b q"
proof (cases "passes_guard ''image/'' obj q")
  case True
  assume "\<not> list_ex (mutates q) (trace (snd (processImages env obj (start b fs))))"
  then show ?thesis
    using processImages_accepted [OF True, of env b fs]
    by (auto simp: replaceFlagged_eq finish_def Let_def split: option.splits if_splits)
next
  case False
  then have "event_name obj \<noteq> Some q \<or> path_absent obj \<or> lacks_marker ''image/'' obj"
    by (auto simp: passes_guard_def path_absent_def lacks_marker_def)
  then show ?thesis
    using processImages_frame [of obj q env b fs]
    by (auto simp: processImages_rejected)
qed

lemma transcodeVideo_unmutated:
  "\<not> list_ex (mutates q) (trace (snd (transcodeVideo env obj (start b fs)))) \<Longrightarrow>
     bucket (snd (transcodeVideo env obj (start b fs))) q = b q"
proof (cases "passes_guard ''video/'' obj q")
  case True
  assume "\<not> list_ex (mutates q) (trace (snd (transcodeVideo env obj (start b fs))))"
  then show ?thesis
    using transcodeVideo_accepted [OF True, of env b fs]
    by (auto simp: replaceFlagged_eq requestTranscode_eq finish_def Let_def
          split: option.splits sum.splits if_splits)
next
  case False
  then have "event_name obj \<noteq> Some q \<or> path_absent obj \<or> lacks_marker ''video/'' obj"
    by (auto simp: passes_guard_def path_absent_def lacks_marker_def)
  then show ?thesis
    using transcodeVideo_frame [of obj q env b fs]
    by (auto simp: transcodeVideo_rejected)
qed

lemma processImages_flags_iff:
  assumes "passes_guard ''image/'' obj p"
    and "safeSearchDetection_reply env (gcs_uri obj p) = Some r"
  shows "(Delete p \<in> set (trace (snd (processImages env obj (start b fs))))) =
           imageSafeSearchDetection_result r"
    and "(Log [''Adult or violent content detected'']
            \<in> set (trace (snd (processImages env obj (start b fs))))) =
           imageSafeSearchDetection_result r"
  using assms processImages_accepted [of obj p env b fs]
  by (auto simp: replaceFlagged_eq finish_def Let_def)

lemma frame_isAdult_iff:
  "frame_isAdult f \<longleftrightarrow> likelihoods_at (pornographyLikelihood f) \<in> Some ` flagging"
  by (cases "pornographyLikelihood f")
     (auto simp: frame_isAdult_def truthy_def likelihoods_at_def likelihoods_def flagging_def
        nth_Cons' split: if_splits)


lemma forEach_frames_last:
  "forEach_frames fs v = (if fs = [] then v else frame_isAdult (last fs))"
  unfolding forEach_frames_def by (induction fs arbitrary: v) auto

lemma forEach_frames_unflagged:
  assumes "\<not> any_frame_flagged fs"
  shows "forEach_frames fs False = False"
proof (cases "fs = []")
  case True
  then show ?thesis by (simp add: forEach_frames_last)
next
  case False
  then have "last fs \<in> set fs" by simp
  with assms have "\<not> frame_isAdult (last fs)"
    by (auto simp: any_frame_flagged_def list_ex_iff frame_isAdult_iff)
  with False show ?thesis by (simp add: forEach_frames_last)
qed

lemma unflagged_verdict:
  "annotationResults r \<noteq> Some [] \<Longrightarrow> \<not> any_frame_flagged (reply_frames r) \<Longrightarrow>
     videoSafeSearchDetection_result r = Inr False"
  by (auto simp: videoSafeSearchDetection_result_def reply_frames_def optional_chain_def
        forEach_frames_unflagged split: option.splits list.splits)

section \<open>Runs under services that answer alike\<close>

lemma replaceFlagged_agree:
  assumes "same_deployment e1 e2"
    and "same_answers e1 e2 (trace (snd (replaceFlagged e1 ph p w)))"
  shows "replaceFlagged e2 ph p w = replaceFlagged e1 ph p w"
  using assms
  by (auto simp: replaceFlagged_eq Let_def same_deployment_def same_answers_def split: if_splits)

lemma requestTranscode_agree:
  assumes "same_deployment e1 e2"
    and "same_answers e1 e2 (trace (snd (requestTranscode e1 p w)))"
  shows "requestTranscode e2 p w = requestTranscode e1 p w"
  using assms
  by (auto simp: requestTranscode_eq Let_def same_deployment_def same_answers_def
        split: option.splits if_splits)

lemma same_answers_finish:
  "same_answers e1 e2 (trace (snd (finish msg r))) \<Longrightarrow> same_answers e1 e2 (trace (snd r))"
  by (cases r) (auto simp: finish_def same_answers_def split: sum.splits)

lemma same_answers_replaceFlagged:
  "same_answers e1 e2 (trace (snd (replaceFlagged e1 ph p w))) \<Longrightarrow> same_answers e1 e2 (trace w)"
  by (auto simp: replaceFlagged_eq Let_def same_answers_def split: if_splits)

lemma same_answers_requestTranscode:
  "same_answers e1 e2 (trace (snd (requestTranscode e1 p w))) \<Longrightarrow> same_answers e1 e2 (trace w)"
  by (auto simp: requestTranscode_eq Let_def same_answers_def split: option.splits if_splits)

lemma processImages_agree:
  assumes dep: "same_deployment e1 e2"
    and sa: "same_answers e1 e2 (trace (snd (processImages e1 obj (start b fs))))"
  shows "processImages e2 obj (start b fs) = processImages e1 obj (start b fs)"
proof -
  from guard_cases [of "''image/''" obj]
  consider p where "passes_guard ''image/'' obj p"
    | "path_absent obj \<or> lacks_marker ''image/'' obj" by blast
  then show ?thesis
  proof cases
    case 1
    let ?uri = "gcs_uri obj p"
    let ?w0 = "\<lparr>bucket = b, files = fs, trace = [SafeSearchDetection ?uri]\<rparr>"
    note run1 = processImages_accepted [OF 1, of e1 b fs]
    note run2 = processImages_accepted [OF 1, of e2 b fs]
    have first: "same_answers e1 e2 [SafeSearchDetection ?uri]"
    proof (cases "safeSearchDetection_reply e1 ?uri")
      case None
      with sa run1 show ?thesis by (simp add: same_answers_def)
    next
      case (Some r)
      show ?thesis
      proof (cases "imageSafeSearchDetection_result r")
        case True
        with sa run1 Some
        have "same_answers e1 e2
                (trace (snd (replaceFlagged e1 REPLACEMENT_IMAGE_FILE_PATH p ?w0)))"
          by (auto dest: same_answers_finish)
        from same_answers_replaceFlagged [OF this] show ?thesis by simp
      next
        case False
        with sa run1 Some show ?thesis by (simp add: same_answers_def finish_def)
      qed
    qed
    then have rep: "safeSearchDetection_reply e2 ?uri = safeSearchDetection_reply e1 ?uri"
      by (simp add: same_answers_def)
    show ?thesis
    proof (cases "safeSearchDetection_reply e1 ?uri")
      case None
      with rep run1 run2 show ?thesis by simp
    next
      case (Some r)
      show ?thesis
      proof (cases "imageSafeSearchDetection_result r")
        case True
        with sa run1 Some
        have "same_answers e1 e2
                (trace (snd (replaceFlagged e1 REPLACEMENT_IMAGE_FILE_PATH p ?w0)))"
          by (auto dest: same_answers_finish)
        from replaceFlagged_agree [OF dep this] True Some rep run1 run2
        show ?thesis by simp
      next
        case False
        with Some rep run1 run2 show ?thesis by simp
      qed
    qed
  next
    case 2
    then show ?thesis by (simp add: processImages_rejected)
  qed
qed

lemma transcodeVideo_agree:
  assumes dep: "same_deployment e1 e2"
    and sa: "same_answers e1 e2 (trace (snd (transcodeVideo e1 obj (start b fs))))"
  shows "transcodeVideo e2 obj (start b fs) = transcodeVideo e1 obj (start b fs)"
proof -
  from guard_cases [of "''video/''" obj]
  consider p where "passes_guard ''video/'' obj p"
    | "path_absent obj \<or> lacks_marker ''video/'' obj" by blast
  then show ?thesis
  proof cases
    case 1
    let ?uri = "gcs_uri obj p"
    let ?c0 = "AnnotateVideo ?uri [''EXPLICIT_CONTENT_DETECTION'']"
    let ?w0 = "\<lparr>bucket = b, files = fs, trace = [?c0]\<rparr>"
    note run1 = transcodeVideo_accepted [OF 1, of e1 b fs]
    note run2 = transcodeVideo_accepted [OF 1, of e2 b fs]
    have first: "same_answers e1 e2 [?c0]"
    proof (cases "annotateVideo_reply e1 ?uri")
      case None
      with sa run1 show ?thesis by (simp add: same_answers_def finish_def Let_def)
    next
      case (Some r)
      show ?thesis
      proof (cases "videoSafeSearchDetection_result r")
        case (Inl e)
        with sa run1 Some show ?thesis by (simp add: same_answers_def finish_def Let_def)
      next
        case (Inr isAdult)
        show ?thesis
        proof (cases isAdult)
          case True
          with sa run1 Some Inr
          have "same_answers e1 e2
                  (trace (snd (replaceFlagged e1 REPLACEMENT_VIDEO_FILE_PATH p ?w0)))"
            by (auto simp: Let_def dest: same_answers_finish)
          from same_answers_replaceFlagged [OF this] show ?thesis by simp
        next
          case False
          with sa run1 Some Inr
          have "same_answers e1 e2 (trace (snd (requestTranscode e1 p ?w0)))"
            by (auto simp: Let_def dest: same_answers_finish)
          from same_answers_requestTranscode [OF this] show ?thesis by simp
        qed
      qed
    qed
    then have rep: "annotateVideo_reply e2 ?uri = annotateVideo_reply e1 ?uri"
      by (simp add: same_answers_def)
    show ?thesis
    proof (cases "annotateVideo_reply e1 ?uri")
      case None
      with rep run1 run2 show ?thesis by (simp add: Let_def)
    next
      case (Some r)
      show ?thesis
      proof (cases "videoSafeSearchDetection_result r")
        case (Inl e)
        with Some rep run1 run2 show ?thesis by (simp add: Let_def)
      next
        case (Inr isAdult)
        show ?thesis
        proof (cases isAdult)
          case True
          with sa run1 Some Inr
          have "same_answers e1 e2
                  (trace (snd (replaceFlagged e1 REPLACEMENT_VIDEO_FILE_PATH p ?w0)))"
            by (auto simp: Let_def dest: same_answers_finish)
          from replaceFlagged_agree [OF dep this] True Some Inr rep run1 run2
          show ?thesis by (simp add: Let_def)
        next
          case False
          with sa run1 Some Inr
          have "same_answers e1 e2 (trace (snd (requestTranscode e1 p ?w0)))"
            by (auto simp: Let_def dest: same_answers_finish)
          from requestTranscode_agree [OF dep this] False Some Inr rep run1 run2
          show ?thesis by (simp add: Let_def)
        qed
      qed
    qed
  next
    case 2
    then show ?thesis by (simp add: transcodeVideo_rejected)
  qed
qed

section \<open>The image verdict and what the handler does with it\<close>

text \<open>
  C2. The image classifier's verdict is true exactly when the reply carries an
  annotation whose adult or violence likelihood is POSSIBLE, LIKELY or VERY_LIKELY, and
  the handler acts on it: for an accepted event, the flagged branch is entered (its log
  line written, the delete of the object issued) exactly under that condition. When
  both likelihoods are UNKNOWN, VERY_UNLIKELY or UNLIKELY, a run of \<open>processImages\<close>
  returns normally, leaves the bucket as it was and issues no delete and no upload.
\<close>

theorem image_flag_rule:
  "(imageSafeSearchDetection_result r \<longleftrightarrow>
      (\<exists>d. safeSearchAnnotation r = Some d \<and>
           (adult d \<in> Some ` flagging \<or> violence d \<in> Some ` flagging))) \<and>
   (passes_guard ''image/'' obj p \<and>
    safeSearchDetection_reply env (gcs_uri obj p) = Some r \<longrightarrow>
      (Delete p \<in> set (trace (snd (processImages env obj (start b fs))))) =
        (\<exists>d. safeSearchAnnotation r = Some d \<and>
           (adult d \<in> Some ` flagging \<or> violence d \<in> Some ` flagging)) \<and>
      (Log [''Adult or violent content detected'']
         \<in> set (trace (snd (processImages env obj (start b fs))))) =
        (\<exists>d. safeSearchAnnotation r = Some d \<and>
           (adult d \<in> Some ` flagging \<or> violence d \<in> Some ` flagging))) \<and>
   (event_name obj = Some p \<and> safeSearchDetection_reply env (gcs_uri obj p) = Some r \<and>
    safeSearchAnnotation r = Some d \<and> adult d \<in> Some ` quiet \<and> violence d \<in> Some ` quiet \<longrightarrow>
      fst (processImages env obj (start b fs)) = Inr () \<and>
      bucket (snd (processImages env obj (start b fs))) = b \<and>
      \<not> list_ex is_storage_mutation (trace (snd (processImages env obj (start b fs)))))"
proof (intro conjI impI)
  show "imageSafeSearchDetection_result r \<longleftrightarrow>
      (\<exists>d. safeSearchAnnotation r = Some d \<and>
           (adult d \<in> Some ` flagging \<or> violence d \<in> Some ` flagging))"
    by (rule image_result_iff)
next
  assume a: "passes_guard ''image/'' obj p \<and>
    safeSearchDetection_reply env (gcs_uri obj p) = Some r"
  then show "(Delete p \<in> set (trace (snd (processImages env obj (start b fs))))) =
        (\<exists>d. safeSearchAnnotation r = Some d \<and>
           (adult d \<in> Some ` flagging \<or> violence d \<in> Some ` flagging))"
    using processImages_flags_iff(1) [of obj p env r b fs] by (simp add: image_result_iff)
  from a show "(Log [''Adult or violent content detected'']
         \<in> set (trace (snd (processImages env obj (start b fs))))) =
        (\<exists>d. safeSearchAnnotation r = Some d \<and>
           (adult d \<in> Some ` flagging \<or> violence d \<in> Some ` flagging))"
    using processImages_flags_iff(2) [of obj p env r b fs] by (simp add: image_result_iff)
next
  assume h: "event_name obj = Some p \<and> safeSearchDetection_reply env (gcs_uri obj p) = Some r \<and>
    safeSearchAnnotation r = Some d \<and> adult d \<in> Some ` quiet \<and> violence d \<in> Some ` quiet"
  then have nf: "\<not> imageSafeSearchDetection_result r"
    using quiet_not_flagging by (auto simp: image_result_iff)
  let ?run = "processImages env obj (start b fs)"
  have "fst ?run = Inr () \<and> bucket (snd ?run) = b \<and>
        \<not> list_ex is_storage_mutation (trace (snd ?run))"
  proof (cases "passes_guard ''image/'' obj p")
    case True
    then show ?thesis
      using h nf processImages_accepted [of obj p env b fs] by (simp add: finish_def)
  next
    case False
    with h have "path_absent obj \<or> lacks_marker ''image/'' obj"
      by (auto simp: passes_guard_def path_absent_def lacks_marker_def)
    then show ?thesis
      by (simp add: processImages_rejected)
  qed
  then show "fst ?run = Inr ()" "bucket (snd ?run) = b"
    "\<not> list_ex is_storage_mutation (trace (snd ?run))"
    by simp_all
qed

theorem image_flag_rule_witness:
  "imageSafeSearchDetection_result (demo_image_reply ''LIKELY'' ''UNKNOWN'') \<and>
   Delete ''a.png'' \<in> set (trace (snd (processImages
       (demo_env (demo_image_reply ''LIKELY'' ''UNKNOWN'') (video_frames_response None))
       demo_image (start demo_bucket Map.empty)))) \<and>
   \<not> imageSafeSearchDetection_result (demo_image_reply ''UNLIKELY'' ''VERY_UNLIKELY'') \<and>
   Delete ''a.png'' \<notin> set (trace (snd (processImages
       (demo_env (demo_image_reply ''UNLIKELY'' ''VERY_UNLIKELY'') (video_frames_response None))
       demo_image (start demo_bucket Map.empty)))) \<and>
   bucket (snd (processImages
       (demo_env (demo_image_reply ''UNLIKELY'' ''VERY_UNLIKELY'') (video_frames_response None))
       demo_image (start demo_bucket Map.empty))) = demo_bucket"
  using image_flag_rule [of "demo_image_reply ''LIKELY'' ''UNKNOWN''" demo_image "''a.png''"
      "demo_env (demo_image_reply ''LIKELY'' ''UNKNOWN'') (video_frames_response None)"
      demo_bucket Map.empty "\<lparr>adult = Some ''LIKELY'', violence = Some ''UNKNOWN''\<rparr>"]
    image_flag_rule [of "demo_image_reply ''UNLIKELY'' ''VERY_UNLIKELY''" demo_image "''a.png''"
      "demo_env (demo_image_reply ''UNLIKELY'' ''VERY_UNLIKELY'') (video_frames_response None)"
      demo_bucket Map.empty "\<lparr>adult = Some ''UNLIKELY'', violence = Some ''VERY_UNLIKELY''\<rparr>"]
    demo_image_passes
  by (simp add: demo_image_reply_def demo_env_def demo_image_def flagging_def quiet_def)

section \<open>The video verdict\<close>

text \<open>
  C1. The specification flags a video when any frame is at POSSIBLE, LIKELY or
  VERY_LIKELY. The callback of \<^verbatim>\<open>forEach\<close> assigns \<^verbatim>\<open>isAdult\<close> anew for every frame, so a
  flagged frame followed by an unflagged one is lost: for the frames POSSIBLE, UNLIKELY
  the verdict is false, and the handler sends the video to the transcoding service with
  the object still in the bucket.
\<close>

theorem earlier_flagged_frame_is_overwritten:
  "any_frame_flagged [\<lparr>pornographyLikelihood = Some 3\<rparr>, \<lparr>pornographyLikelihood = Some 2\<rparr>] \<and>
   videoSafeSearchDetection_result (video_frames_response
      (Some [\<lparr>pornographyLikelihood = Some 3\<rparr>, \<lparr>pornographyLikelihood = Some 2\<rparr>])) =
     Inr False \<and>
   list_ex is_post (trace (snd (transcodeVideo
      (demo_env (demo_image_reply ''UNKNOWN'' ''UNKNOWN'') (video_frames_response
         (Some [\<lparr>pornographyLikelihood = Some 3\<rparr>, \<lparr>pornographyLikelihood = Some 2\<rparr>])))
      demo_video (start demo_bucket Map.empty)))) \<and>
   bucket (snd (transcodeVideo
      (demo_env (demo_image_reply ''UNKNOWN'' ''UNKNOWN'') (video_frames_response
         (Some [\<lparr>pornographyLikelihood = Some 3\<rparr>, \<lparr>pornographyLikelihood = Some 2\<rparr>])))
      demo_video (start demo_bucket Map.empty))) ''clip.mp4'' = Some [4, 5]"
  by (simp add: transcodeVideo_accepted [OF demo_video_passes] requestTranscode_eq finish_def
        Let_def demo_defs verdict_defs demo_event_simps any_frame_flagged_def flagging_def)

text \<open>
  For a reply with a non-empty frame list the verdict is the flag of the last frame
  alone; a true verdict still needs some flagged frame.
\<close>

theorem video_verdict_is_last_frame:
  "fs \<noteq> [] \<longrightarrow>
     videoSafeSearchDetection_result (video_frames_response (Some fs)) =
       Inr (likelihoods_at (pornographyLikelihood (last fs)) \<in> Some ` flagging) \<and>
     (videoSafeSearchDetection_result (video_frames_response (Some fs)) = Inr True \<longrightarrow>
        any_frame_flagged fs)"
  by (auto simp: videoSafeSearchDetection_result_def video_frames_response_def
        optional_chain_def forEach_frames_last frame_isAdult_iff any_frame_flagged_def
        list_ex_iff)

theorem video_verdict_is_last_frame_witness:
  "videoSafeSearchDetection_result (video_frames_response
      (Some [\<lparr>pornographyLikelihood = Some 2\<rparr>, \<lparr>pornographyLikelihood = Some 4\<rparr>])) = Inr True"
  using video_verdict_is_last_frame
    [of "[\<lparr>pornographyLikelihood = Some 2\<rparr>, \<lparr>pornographyLikelihood = Some 4\<rparr>]"]
  by (simp add: likelihoods_at_def likelihoods_def flagging_def)

text \<open>
  C4. A reply whose \<^verbatim>\<open>annotationResults\<close> is the empty array passes the test
  \<^verbatim>\<open>!explicitContentResults\<close>, and reading \<^verbatim>\<open>explicitContentResults[0].explicitAnnotation\<close>
  throws: the handler logs the TypeError and rethrows it, with no transcode request.
\<close>

theorem empty_annotation_results_throw:
  "videoSafeSearchDetection_result \<lparr>annotationResults = Some []\<rparr> = Inl TypeError \<and>
   transcodeVideo
      (demo_env (demo_image_reply ''UNKNOWN'' ''UNKNOWN'') \<lparr>annotationResults = Some []\<rparr>)
      demo_video (start demo_bucket Map.empty) =
     (Inl TypeError,
      \<lparr>bucket = demo_bucket, files = Map.empty,
       trace = [AnnotateVideo ''gs://media/clip.mp4'' [''EXPLICIT_CONTENT_DETECTION''],
                LogError TypeError]\<rparr>)"
  by (simp add: transcodeVideo_accepted [OF demo_video_passes] finish_def
        Let_def demo_env_def gcs_uri_def videoSafeSearchDetection_result_def demo_event_simps)

text \<open>
  With \<^verbatim>\<open>annotationResults\<close> null or undefined, or a first result whose explicit
  annotation or frame list is missing or empty, the verdict is false, and an accepted
  event goes to the transcode branch: a signed URL is asked for and nothing in the bucket
  is deleted or uploaded.
\<close>

theorem missing_frames_default_to_transcode:
  "no_frames r \<longrightarrow>
     videoSafeSearchDetection_result r = Inr False \<and>
     (passes_guard ''video/'' obj p \<and> annotateVideo_reply env (gcs_uri obj p) = Some r \<longrightarrow>
        \<not> list_ex is_storage_mutation (trace (snd (transcodeVideo env obj (start b fs)))) \<and>
        GetSignedUrl p ''read'' (Date_now env + 3600000)
          \<in> set (trace (snd (transcodeVideo env obj (start b fs)))))"
proof (intro impI)
  assume nf: "no_frames r"
  then have v: "videoSafeSearchDetection_result r = Inr False"
    by (auto simp: no_frames_def videoSafeSearchDetection_result_def optional_chain_def
          split: option.splits list.splits)
  show "videoSafeSearchDetection_result r = Inr False \<and>
     (passes_guard ''video/'' obj p \<and> annotateVideo_reply env (gcs_uri obj p) = Some r \<longrightarrow>
        \<not> list_ex is_storage_mutation (trace (snd (transcodeVideo env obj (start b fs)))) \<and>
        GetSignedUrl p ''read'' (Date_now env + 3600000)
          \<in> set (trace (snd (transcodeVideo env obj (start b fs)))))"
    using v transcodeVideo_accepted [of obj p env b fs]
    by (auto simp: requestTranscode_eq finish_def Let_def split: option.splits)
qed

theorem missing_frames_default_to_transcode_witness:
  "videoSafeSearchDetection_result \<lparr>annotationResults = None\<rparr> = Inr False \<and>
   videoSafeSearchDetection_result (video_frames_response (Some [])) = Inr False \<and>
   GetSignedUrl ''clip.mp4'' ''read'' 1700003600000
     \<in> set (trace (snd (transcodeVideo
          (demo_env (demo_image_reply ''UNKNOWN'' ''UNKNOWN'') (video_frames_response (Some [])))
          demo_video (start demo_bucket Map.empty))))"
  using missing_frames_default_to_transcode [of "\<lparr>annotationResults = None\<rparr>"]
    missing_frames_default_to_transcode [of "video_frames_response (Some [])" demo_video
      "''clip.mp4''"
      "demo_env (demo_image_reply ''UNKNOWN'' ''UNKNOWN'') (video_frames_response (Some []))"
      demo_bucket Map.empty]
    demo_video_passes
  by (simp add: no_frames_def video_frames_response_def demo_env_def)

section \<open>The flagged branch\<close>

text \<open>
  When the verdict the handler computes is true and the run completes normally, the
  transfer calls are exactly: delete of the object, download of the placeholder to the
  temporary file, upload of that file to the event's path, unlink of the temporary file
  (the creation of the temporary directory and the handler's log lines stand between
  them). The placeholder exists, the bucket ends as it began except that the event's
  path holds the placeholder's bytes, and the temporary file is gone.
\<close>


theorem flagged_success_installs_placeholder:
  "(passes_guard ''image/'' obj p \<and>
    safeSearchDetection_reply env (gcs_uri obj p) = Some r \<and>
    imageSafeSearchDetection_result r \<and>
    fst (processImages env obj (start b fs)) = Inr () \<longrightarrow>
      (let tmp = path_join env (os_tmpdir env) p;
           w' = snd (processImages env obj (start b fs))
       in b REPLACEMENT_IMAGE_FILE_PATH \<noteq> None \<and>
          bucket w' = b(p := b REPLACEMENT_IMAGE_FILE_PATH) \<and>
          files w' = fs(tmp := None) \<and>
          filter is_transfer (trace w') =
            [Delete p, Download REPLACEMENT_IMAGE_FILE_PATH tmp, Upload tmp p, Unlink tmp] \<and>
          trace w' =
            [SafeSearchDetection (gcs_uri obj p),
             Log [''Adult or violent content detected''],
             Delete p,
             Mkdirp (path_dirname env tmp),
             Download REPLACEMENT_IMAGE_FILE_PATH tmp,
             Log [''The replacement file has been downloaded to: '', tmp],
             Upload tmp p,
             Log [''Uploaded the replacement file to: '', p],
             Unlink tmp,
             Log [''Unlinked the downloaded file from: '', tmp],
             Log [''Processing image finished'']])) \<and>
   (passes_guard ''video/'' obj p \<and>
    annotateVideo_reply env (gcs_uri obj p) = Some rv \<and>
    videoSafeSearchDetection_result rv = Inr True \<and>
    fst (transcodeVideo env obj (start b fs)) = Inr () \<longrightarrow>
      (let tmp = path_join env (os_tmpdir env) p;
           w' = snd (transcodeVideo env obj (start b fs))
       in b REPLACEMENT_VIDEO_FILE_PATH \<noteq> None \<and>
          bucket w' = b(p := b REPLACEMENT_VIDEO_FILE_PATH) \<and>
          files w' = fs(tmp := None) \<and>
          filter is_transfer (trace w') =
            [Delete p, Download REPLACEMENT_VIDEO_FILE_PATH tmp, Upload tmp p, Unlink tmp] \<and>
          trace w' =
            [AnnotateVideo (gcs_uri obj p) [''EXPLICIT_CONTENT_DETECTION''],
             Log [''Adult or violent content detected''],
             Delete p,
             Mkdirp (path_dirname env tmp),
             Download REPLACEMENT_VIDEO_FILE_PATH tmp,
             Log [''The replacement file has been downloaded to: '', tmp],
             Upload tmp p,
             Log [''Uploaded the replacement file to: '', p],
             Unlink tmp,
             Log [''Unlinked the downloaded file from: '', tmp],
             Log [''Processing video finished'']]))"
proof (intro conjI impI)
  assume h: "passes_guard ''image/'' obj p \<and>
    safeSearchDetection_reply env (gcs_uri obj p) = Some r \<and>
    imageSafeSearchDetection_result r \<and>
    fst (processImages env obj (start b fs)) = Inr ()"
  then show "let tmp = path_join env (os_tmpdir env) p;
           w' = snd (processImages env obj (start b fs))
       in b REPLACEMENT_IMAGE_FILE_PATH \<noteq> None \<and>
          bucket w' = b(p := b REPLACEMENT_IMAGE_FILE_PATH) \<and>
          files w' = fs(tmp := None) \<and>
          filter is_transfer (trace w') =
            [Delete p, Download REPLACEMENT_IMAGE_FILE_PATH tmp, Upload tmp p, Unlink tmp] \<and>
          trace w' =
            [SafeSearchDetection (gcs_uri obj p),
             Log [''Adult or violent content detected''],
             Delete p,
             Mkdirp (path_dirname env tmp),
             Download REPLACEMENT_IMAGE_FILE_PATH tmp,
             Log [''The replacement file has been downloaded to: '', tmp],
             Upload tmp p,
             Log [''Uploaded the replacement file to: '', p],
             Unlink tmp,
             Log [''Unlinked the downloaded file from: '', tmp],
             Log [''Processing image finished'']]"
    by (auto simp: processImages_accepted replaceFlagged_eq finish_def Let_def
          split: if_splits)
next
  assume h: "passes_guard ''video/'' obj p \<and>
    annotateVideo_reply env (gcs_uri obj p) = Some rv \<and>
    videoSafeSearchDetection_result rv = Inr True \<and>
    fst (transcodeVideo env obj (start b fs)) = Inr ()"
  then show "let tmp = path_join env (os_tmpdir env) p;
           w' = snd (transcodeVideo env obj (start b fs))
       in b REPLACEMENT_VIDEO_FILE_PATH \<noteq> None \<and>
          bucket w' = b(p := b REPLACEMENT_VIDEO_FILE_PATH) \<and>
          files w' = fs(tmp := None) \<and>
          filter is_transfer (trace w') =
            [Delete p, Download REPLACEMENT_VIDEO_FILE_PATH tmp, Upload tmp p, Unlink tmp] \<and>
          trace w' =
            [AnnotateVideo (gcs_uri obj p) [''EXPLICIT_CONTENT_DETECTION''],
             Log [''Adult or violent content detected''],
             Delete p,
             Mkdirp (path_dirname env tmp),
             Download REPLACEMENT_VIDEO_FILE_PATH tmp,
             Log [''The replacement file has been downloaded to: '', tmp],
             Upload tmp p,
             Log [''Uploaded the replacement file to: '', p],
             Unlink tmp,
             Log [''Unlinked the downloaded file from: '', tmp],
             Log [''Processing video finished'']]"
    by (auto simp: transcodeVideo_accepted replaceFlagged_eq finish_def Let_def
          split: if_splits)
qed

theorem flagged_success_installs_placeholder_witness:
  "bucket (snd (processImages
       (demo_env (demo_image_reply ''LIKELY'' ''UNKNOWN'')
          (video_frames_response (Some [\<lparr>pornographyLikelihood = Some 4\<rparr>])))
       demo_image (start demo_bucket Map.empty))) =
     demo_bucket(''a.png'' \<mapsto> [9, 9]) \<and>
   bucket (snd (transcodeVideo
       (demo_env (demo_image_reply ''LIKELY'' ''UNKNOWN'')
          (video_frames_response (Some [\<lparr>pornographyLikelihood = Some 4\<rparr>])))
       demo_video (start demo_bucket Map.empty))) =
     demo_bucket(''clip.mp4'' \<mapsto> [7]) \<and>
   trace (snd (transcodeVideo
       (demo_env (demo_image_reply ''LIKELY'' ''UNKNOWN'')
          (video_frames_response (Some [\<lparr>pornographyLikelihood = Some 4\<rparr>])))
       demo_video (start demo_bucket Map.empty))) =
     [AnnotateVideo ''gs://media/clip.mp4'' [''EXPLICIT_CONTENT_DETECTION''],
      Log [''Adult or violent content detected''],
      Delete ''clip.mp4'',
      Mkdirp ''/tmp'',
      Download ''annotate.mp4'' ''/tmp/clip.mp4'',
      Log [''The replacement file has been downloaded to: '', ''/tmp/clip.mp4''],
      Upload ''/tmp/clip.mp4'' ''clip.mp4'',
      Log [''Uploaded the replacement file to: '', ''clip.mp4''],
      Unlink ''/tmp/clip.mp4'',
      Log [''Unlinked the downloaded file from: '', ''/tmp/clip.mp4''],
      Log [''Processing video finished'']]"
  using flagged_success_installs_placeholder [of demo_image "''a.png''"
      "demo_env (demo_image_reply ''LIKELY'' ''UNKNOWN'')
          (video_frames_response (Some [\<lparr>pornographyLikelihood = Some 4\<rparr>]))"
      "demo_image_reply ''LIKELY'' ''UNKNOWN''" demo_bucket Map.empty]
    flagged_success_installs_placeholder [of demo_video "''clip.mp4''"
      "demo_env (demo_image_reply ''LIKELY'' ''UNKNOWN'')
          (video_frames_response (Some [\<lparr>pornographyLikelihood = Some 4\<rparr>]))"
      _ demo_bucket Map.empty
      "video_frames_response (Some [\<lparr>pornographyLikelihood = Some 4\<rparr>])"]
    demo_image_passes demo_video_passes
  by (simp add: processImages_accepted [OF demo_image_passes]
        transcodeVideo_accepted [OF demo_video_passes] replaceFlagged_eq finish_def
        Let_def demo_defs verdict_defs demo_event_simps)

text \<open>
  C5. A flagged event is replaced by the placeholder on the success path. For images
  the verdict is the decision rule, and the theorem above applies. For videos the
  verdict is the last frame's flag: a video with a POSSIBLE frame followed by an UNLIKELY
  one is flagged by the decision rule, yet its run returns normally without any delete,
  download, upload or unlink, and the object keeps its own bytes instead of the
  placeholder's.
\<close>

theorem flagged_video_kept_when_last_frame_is_quiet:
  "passes_guard ''video/'' demo_video ''clip.mp4'' \<and>
   any_frame_flagged (reply_frames (video_frames_response
      (Some [\<lparr>pornographyLikelihood = Some 3\<rparr>, \<lparr>pornographyLikelihood = Some 2\<rparr>]))) \<and>
   fst (transcodeVideo
      (demo_env (demo_image_reply ''UNKNOWN'' ''UNKNOWN'') (video_frames_response
         (Some [\<lparr>pornographyLikelihood = Some 3\<rparr>, \<lparr>pornographyLikelihood = Some 2\<rparr>])))
      demo_video (start demo_bucket Map.empty)) = Inr () \<and>
   filter is_transfer (trace (snd (transcodeVideo
      (demo_env (demo_image_reply ''UNKNOWN'' ''UNKNOWN'') (video_frames_response
         (Some [\<lparr>pornographyLikelihood = Some 3\<rparr>, \<lparr>pornographyLikelihood = Some 2\<rparr>])))
      demo_video (start demo_bucket Map.empty)))) = [] \<and>
   bucket (snd (transcodeVideo
      (demo_env (demo_image_reply ''UNKNOWN'' ''UNKNOWN'') (video_frames_response
         (Some [\<lparr>pornographyLikelihood = Some 3\<rparr>, \<lparr>pornographyLikelihood = Some 2\<rparr>])))
      demo_video (start demo_bucket Map.empty))) ''clip.mp4'' = Some [4, 5] \<and>
   demo_bucket REPLACEMENT_VIDEO_FILE_PATH = Some [7]"
  by (simp add: transcodeVideo_accepted [OF demo_video_passes] requestTranscode_eq finish_def
        Let_def demo_defs verdict_defs demo_event_simps any_frame_flagged_def flagging_def
        reply_frames_def demo_video_passes)

text \<open>
  C6, as stated, fails: when the upload of the placeholder is rejected the handler
  rethrows at once, no unlink is issued and the downloaded file stays on the local disk.
\<close>

theorem temp_file_kept_when_upload_fails:
  "fst (processImages
         ((demo_env (demo_image_reply ''LIKELY'' ''UNKNOWN'') (video_frames_response None))
            \<lparr>rejects := (\<lambda>a. a = Upload ''/tmp/a.png'' ''a.png'')\<rparr>)
         demo_image (start demo_bucket Map.empty)) =
     Inl (Rejected (Upload ''/tmp/a.png'' ''a.png'')) \<and>
   files (snd (processImages
         ((demo_env (demo_image_reply ''LIKELY'' ''UNKNOWN'') (video_frames_response None))
            \<lparr>rejects := (\<lambda>a. a = Upload ''/tmp/a.png'' ''a.png'')\<rparr>)
         demo_image (start demo_bucket Map.empty))) ''/tmp/a.png'' = Some [9, 9] \<and>
   Unlink ''/tmp/a.png'' \<notin> set (trace (snd (processImages
         ((demo_env (demo_image_reply ''LIKELY'' ''UNKNOWN'') (video_frames_response None))
            \<lparr>rejects := (\<lambda>a. a = Upload ''/tmp/a.png'' ''a.png'')\<rparr>)
         demo_image (start demo_bucket Map.empty))))"
  by (simp add: processImages_accepted [OF demo_image_passes] replaceFlagged_eq finish_def
        Let_def demo_defs verdict_defs)

text \<open>
  C6, amended. In a run of the flagged branch the five steps are taken in order, and the
  first one that fails ends the run: its error is logged and rethrown. The delete fails
  when the service rejects it or the object is missing, the creation of the directory
  when it is rejected, the download when the placeholder is the object just deleted, is
  missing, or the service rejects it, the upload and the unlink when they are rejected.
  The unlink is issued exactly when delete, directory, download and upload have all
  succeeded. The temporary file is gone after a successful unlink, holds the
  placeholder's bytes when the download succeeded but the upload or the unlink failed,
  and the local disk is untouched when the run stopped earlier.
\<close>

theorem unlink_only_after_upload:
  "(passes_guard ''image/'' obj p \<and>
    safeSearchDetection_reply env (gcs_uri obj p) = Some r \<and>
    imageSafeSearchDetection_result r \<longrightarrow>
      (let tmp = path_join env (os_tmpdir env) p;
           dir = path_dirname env tmp;
           ph = REPLACEMENT_IMAGE_FILE_PATH;
           run = processImages env obj (start b fs);
           deleted = (\<not> rejects env (Delete p) \<and> b p \<noteq> None);
           made = (deleted \<and> \<not> rejects env (Mkdirp dir));
           downloaded =
             (made \<and> ph \<noteq> p \<and> b ph \<noteq> None \<and> \<not> rejects env (Download ph tmp));
           uploaded = (downloaded \<and> \<not> rejects env (Upload tmp p))
       in (Unlink tmp \<in> set (trace (snd run))) = uploaded \<and>
          fst run =
            (if \<not> deleted then Inl (Rejected (Delete p))
             else if \<not> made then Inl (Rejected (Mkdirp dir))
             else if \<not> downloaded then Inl (Rejected (Download ph tmp))
             else if \<not> uploaded then Inl (Rejected (Upload tmp p))
             else if rejects env (Unlink tmp) then Inl (Rejected (Unlink tmp))
             else Inr ()) \<and>
          files (snd run) =
            (if uploaded \<and> \<not> rejects env (Unlink tmp) then fs(tmp := None)
             else if downloaded then fs(tmp := b ph)
             else fs) \<and>
          (\<forall>e. fst run = Inl e \<longrightarrow> last (trace (snd run)) = LogError e))) \<and>
   (passes_guard ''video/'' obj p \<and>
    annotateVideo_reply env (gcs_uri obj p) = Some rv \<and>
    videoSafeSearchDetection_result rv = Inr True \<longrightarrow>
      (let tmp = path_join env (os_tmpdir env) p;
           dir = path_dirname env tmp;
           ph = REPLACEMENT_VIDEO_FILE_PATH;
           run = transcodeVideo env obj (start b fs);
           deleted = (\<not> rejects env (Delete p) \<and> b p \<noteq> None);
           made = (deleted \<and> \<not> rejects env (Mkdirp dir));
           downloaded =
             (made \<and> ph \<noteq> p \<and> b ph \<noteq> None \<and> \<not> rejects env (Download ph tmp));
           uploaded = (downloaded \<and> \<not> rejects env (Upload tmp p))
       in (Unlink tmp \<in> set (trace (snd run))) = uploaded \<and>
          fst run =
            (if \<not> deleted then Inl (Rejected (Delete p))
             else if \<not> made then Inl (Rejected (Mkdirp dir))
             else if \<not> downloaded then Inl (Rejected (Download ph tmp))
             else if \<not> uploaded then Inl (Rejected (Upload tmp p))
             else if rejects env (Unlink tmp) then Inl (Rejected (Unlink tmp))
             else Inr ()) \<and>
          files (snd run) =
            (if uploaded \<and> \<not> rejects env (Unlink tmp) then fs(tmp := None)
             else if downloaded then fs(tmp := b ph)
             else fs) \<and>
          (\<forall>e. fst run = Inl e \<longrightarrow> last (trace (snd run)) = LogError e)))"
proof (intro conjI impI)
  assume "passes_guard ''image/'' obj p \<and>
    safeSearchDetection_reply env (gcs_uri obj p) = Some r \<and>
    imageSafeSearchDetection_result r"
  then have "processImages env obj (start b fs) =
      finish ''Processing image finished''
        (replaceFlagged env REPLACEMENT_IMAGE_FILE_PATH p
           \<lparr>bucket = b, files = fs, trace = [SafeSearchDetection (gcs_uri obj p)]\<rparr>)"
    using processImages_accepted [of obj p env b fs] by simp
  then show "let tmp = path_join env (os_tmpdir env) p;
           dir = path_dirname env tmp;
           ph = REPLACEMENT_IMAGE_FILE_PATH;
           run = processImages env obj (start b fs);
           deleted = (\<not> rejects env (Delete p) \<and> b p \<noteq> None);
           made = (deleted \<and> \<not> rejects env (Mkdirp dir));
           downloaded =
             (made \<and> ph \<noteq> p \<and> b ph \<noteq> None \<and> \<not> rejects env (Download ph tmp));
           uploaded = (downloaded \<and> \<not> rejects env (Upload tmp p))
       in (Unlink tmp \<in> set (trace (snd run))) = uploaded \<and>
          fst run =
            (if \<not> deleted then Inl (Rejected (Delete p))
             else if \<not> made then Inl (Rejected (Mkdirp dir))
             else if \<not> downloaded then Inl (Rejected (Download ph tmp))
             else if \<not> uploaded then Inl (Rejected (Upload tmp p))
             else if rejects env (Unlink tmp) then Inl (Rejected (Unlink tmp))
             else Inr ()) \<and>
          files (snd run) =
            (if uploaded \<and> \<not> rejects env (Unlink tmp) then fs(tmp := None)
             else if downloaded then fs(tmp := b ph)
             else fs) \<and>
          (\<forall>e. fst run = Inl e \<longrightarrow> last (trace (snd run)) = LogError e)"
    using replaceFlagged_steps [of env p "''Processing image finished''"
        REPLACEMENT_IMAGE_FILE_PATH b fs "SafeSearchDetection (gcs_uri obj p)"]
    by (simp add: Let_def)
next
  assume "passes_guard ''video/'' obj p \<and>
    annotateVideo_reply env (gcs_uri obj p) = Some rv \<and>
    videoSafeSearchDetection_result rv = Inr True"
  then have "transcodeVideo env obj (start b fs) =
      finish ''Processing video finished''
        (replaceFlagged env REPLACEMENT_VIDEO_FILE_PATH p
           \<lparr>bucket = b, files = fs,
            trace = [AnnotateVideo (gcs_uri obj p) [''EXPLICIT_CONTENT_DETECTION'']]\<rparr>)"
    using transcodeVideo_accepted [of obj p env b fs] by simp
  then show "let tmp = path_join env (os_tmpdir env) p;
           dir = path_dirname env tmp;
           ph = REPLACEMENT_VIDEO_FILE_PATH;
           run = transcodeVideo env obj (start b fs);
           deleted = (\<not> rejects env (Delete p) \<and> b p \<noteq> None);
           made = (deleted \<and> \<not> rejects env (Mkdirp dir));
           downloaded =
             (made \<and> ph \<noteq> p \<and> b ph \<noteq> None \<and> \<not> rejects env (Download ph tmp));
           uploaded = (downloaded \<and> \<not> rejects env (Upload tmp p))
       in (Unlink tmp \<in> set (trace (snd run))) = uploaded \<and>
          fst run =
            (if \<not> deleted then Inl (Rejected (Delete p))
             else if \<not> made then Inl (Rejected (Mkdirp dir))
             else if \<not> downloaded then Inl (Rejected (Download ph tmp))
             else if \<not> uploaded then Inl (Rejected (Upload tmp p))
             else if rejects env (Unlink tmp) then Inl (Rejected (Unlink tmp))
             else Inr ()) \<and>
          files (snd run) =
            (if uploaded \<and> \<not> rejects env (Unlink tmp) then fs(tmp := None)
             else if downloaded then fs(tmp := b ph)
             else fs) \<and>
          (\<forall>e. fst run = Inl e \<longrightarrow> last (trace (snd run)) = LogError e)"
    using replaceFlagged_steps [of env p "''Processing video finished''"
        REPLACEMENT_VIDEO_FILE_PATH b fs
        "AnnotateVideo (gcs_uri obj p) [''EXPLICIT_CONTENT_DETECTION'']"]
    by (simp add: Let_def)
qed

theorem unlink_only_after_upload_witness:
  "Unlink ''/tmp/a.png'' \<in> set (trace (snd (processImages
       (demo_env (demo_image_reply ''LIKELY'' ''UNKNOWN'') (video_frames_response None))
       demo_image (start demo_bucket Map.empty)))) \<and>
   files (snd (processImages
       (demo_env (demo_image_reply ''LIKELY'' ''UNKNOWN'') (video_frames_response None))
       demo_image (start demo_bucket Map.empty))) ''/tmp/a.png'' = None \<and>
   Unlink ''/tmp/clip.mp4'' \<notin> set (trace (snd (transcodeVideo
       ((demo_env (demo_image_reply ''LIKELY'' ''UNKNOWN'')
          (video_frames_response (Some [\<lparr>pornographyLikelihood = Some 5\<rparr>])))
          \<lparr>rejects := (\<lambda>a. a = Upload ''/tmp/clip.mp4'' ''clip.mp4'')\<rparr>)
       demo_video (start demo_bucket Map.empty)))) \<and>
   fst (transcodeVideo
       ((demo_env (demo_image_reply ''LIKELY'' ''UNKNOWN'')
          (video_frames_response (Some [\<lparr>pornographyLikelihood = Some 5\<rparr>])))
          \<lparr>rejects := (\<lambda>a. a = Upload ''/tmp/clip.mp4'' ''clip.mp4'')\<rparr>)
       demo_video (start demo_bucket Map.empty)) =
     Inl (Rejected (Upload ''/tmp/clip.mp4'' ''clip.mp4''))"
  using unlink_only_after_upload [of demo_image "''a.png''"
      "demo_env (demo_image_reply ''LIKELY'' ''UNKNOWN'') (video_frames_response None)"
      "demo_image_reply ''LIKELY'' ''UNKNOWN''" demo_bucket Map.empty]
    unlink_only_after_upload [of demo_video "''clip.mp4''"
      "(demo_env (demo_image_reply ''LIKELY'' ''UNKNOWN'')
          (video_frames_response (Some [\<lparr>pornographyLikelihood = Some 5\<rparr>])))
          \<lparr>rejects := (\<lambda>a. a = Upload ''/tmp/clip.mp4'' ''clip.mp4'')\<rparr>"
      _ demo_bucket Map.empty
      "video_frames_response (Some [\<lparr>pornographyLikelihood = Some 5\<rparr>])"]
    demo_image_passes demo_video_passes
  by (simp add: Let_def demo_defs verdict_defs demo_event_simps)


text \<open>
  Replaying a flagged image event after a run that completed normally completes
  normally again and leaves the bucket as the first run left it: the placeholder's bytes
  stay at the event's path.
\<close>

theorem replaying_flagged_event_is_idempotent:
  "passes_guard ''image/'' obj p \<and>
   safeSearchDetection_reply env (gcs_uri obj p) = Some r \<and>
   imageSafeSearchDetection_result r \<and>
   processImages env obj (start b fs) = (Inr (), w1) \<longrightarrow>
     fst (processImages env obj (start (bucket w1) (files w1))) = Inr () \<and>
     bucket (snd (processImages env obj (start (bucket w1) (files w1)))) = bucket w1"
proof (intro impI)
  assume h: "passes_guard ''image/'' obj p \<and>
   safeSearchDetection_reply env (gcs_uri obj p) = Some r \<and>
   imageSafeSearchDetection_result r \<and>
   processImages env obj (start b fs) = (Inr (), w1)"
  let ?w0 = "\<lparr>bucket = b, files = fs, trace = [SafeSearchDetection (gcs_uri obj p)]\<rparr>"
  let ?w0' = "\<lparr>bucket = bucket w1, files = files w1,
               trace = [SafeSearchDetection (gcs_uri obj p)]\<rparr>"
  let ?ph = REPLACEMENT_IMAGE_FILE_PATH
  from h have run1: "finish ''Processing image finished'' (replaceFlagged env ?ph p ?w0) = (Inr (), w1)"
    using processImages_accepted [of obj p env b fs] by simp
  then have ok1: "fst (replaceFlagged env ?ph p ?w0) = Inr ()"
    by (cases "replaceFlagged env ?ph p ?w0") (auto simp: finish_def split: sum.splits)
  have b1: "bucket w1 = b(p := b ?ph)"
    using run1 replaceFlagged_success_bucket [OF ok1]
    by (cases "replaceFlagged env ?ph p ?w0") (auto simp: finish_def split: sum.splits)
  from ok1 have ok2: "fst (replaceFlagged env ?ph p ?w0') = Inr ()"
    by (simp add: replaceFlagged_succeeds_iff b1 Let_def)
  have run2: "processImages env obj (start (bucket w1) (files w1)) =
      finish ''Processing image finished'' (replaceFlagged env ?ph p ?w0')"
    using h processImages_accepted [of obj p env "bucket w1" "files w1"] by simp
  have "bucket (snd (replaceFlagged env ?ph p ?w0')) = bucket w1"
    using replaceFlagged_success_bucket [OF ok2] ok1
    by (auto simp: b1 replaceFlagged_succeeds_iff Let_def)
  with ok2 show "fst (processImages env obj (start (bucket w1) (files w1))) = Inr () \<and>
     bucket (snd (processImages env obj (start (bucket w1) (files w1)))) = bucket w1"
    unfolding run2
    by (cases "replaceFlagged env ?ph p ?w0'") (auto simp: finish_def split: sum.splits)
qed

theorem replaying_flagged_event_is_idempotent_witness:
  "bucket (snd (processImages
       (demo_env (demo_image_reply ''LIKELY'' ''UNKNOWN'') (video_frames_response None))
       demo_image
       (start
          (bucket (snd (processImages
             (demo_env (demo_image_reply ''LIKELY'' ''UNKNOWN'') (video_frames_response None))
             demo_image (start demo_bucket Map.empty))))
          (files (snd (processImages
             (demo_env (demo_image_reply ''LIKELY'' ''UNKNOWN'') (video_frames_response None))
             demo_image (start demo_bucket Map.empty))))))) ''a.png'' = Some [9, 9]"
  using replaying_flagged_event_is_idempotent [of demo_image "''a.png''"
      "demo_env (demo_image_reply ''LIKELY'' ''UNKNOWN'') (video_frames_response None)"
      "demo_image_reply ''LIKELY'' ''UNKNOWN''" demo_bucket Map.empty
      "snd (processImages
         (demo_env (demo_image_reply ''LIKELY'' ''UNKNOWN'') (video_frames_response None))
         demo_image (start demo_bucket Map.empty))"]
    demo_image_passes
  by (simp add: processImages_accepted [OF demo_image_passes] replaceFlagged_eq finish_def
        Let_def demo_defs verdict_defs demo_event_simps)

section \<open>The transcode branch\<close>

text \<open>
  C7, as stated, fails: when the request for the signed URL is rejected, an accepted
  video without a flagged frame ends with the error logged and rethrown and no POST.
\<close>

theorem no_post_when_signing_is_rejected:
  "passes_guard ''video/'' demo_video ''clip.mp4'' \<and>
   \<not> any_frame_flagged (reply_frames (video_frames_response
        (Some [\<lparr>pornographyLikelihood = Some 1\<rparr>]))) \<and>
   fst (transcodeVideo
      ((demo_env (demo_image_reply ''UNKNOWN'' ''UNKNOWN'')
          (video_frames_response (Some [\<lparr>pornographyLikelihood = Some 1\<rparr>])))
         \<lparr>getSignedUrl_reply := (\<lambda>p expires. None)\<rparr>)
      demo_video (start demo_bucket Map.empty)) =
     Inl (Rejected (GetSignedUrl ''clip.mp4'' ''read'' 1700003600000)) \<and>
   \<not> list_ex is_post (trace (snd (transcodeVideo
      ((demo_env (demo_image_reply ''UNKNOWN'' ''UNKNOWN'')
          (video_frames_response (Some [\<lparr>pornographyLikelihood = Some 1\<rparr>])))
         \<lparr>getSignedUrl_reply := (\<lambda>p expires. None)\<rparr>)
      demo_video (start demo_bucket Map.empty))))"
  by (simp add: transcodeVideo_accepted [OF demo_video_passes] requestTranscode_eq finish_def
        Let_def demo_defs verdict_defs demo_event_simps any_frame_flagged_def flagging_def
        reply_frames_def demo_video_passes)

text \<open>
  C7, amended. For an accepted video whose reply has no flagged frame (the reply with an
  empty \<^verbatim>\<open>annotationResults\<close> array apart), the handler asks for a read URL that expires
  3600000 ms after \<^verbatim>\<open>Date.now()\<close>. When the URL is issued, it makes exactly one POST to
  \<^verbatim>\<open>{base}/{account}/stream/copy\<close> with the bearer token and the body
  \<^verbatim>\<open>{url, meta: {name, path, contentURI, contentRef}}\<close>, and returns null, or logs and
  rethrows the error of the POST. When the URL is refused, it logs and rethrows that
  error and makes no POST. In every case the bucket and the local files are as before
  and no delete, download or upload is issued.
\<close>

theorem unflagged_video_requests_transcode:
  "passes_guard ''video/'' obj p \<and>
   annotateVideo_reply env (gcs_uri obj p) = Some r \<and>
   annotationResults r \<noteq> Some [] \<and>
   \<not> any_frame_flagged (reply_frames r) \<longrightarrow>
     (let expires = Date_now env + 3600000;
          annotate = AnnotateVideo (gcs_uri obj p) [''EXPLICIT_CONTENT_DETECTION''];
          sign = GetSignedUrl p ''read'' expires;
          run = transcodeVideo env obj (start b fs)
      in case getSignedUrl_reply env p expires of
           None \<Rightarrow>
             run = (Inl (Rejected sign),
                    \<lparr>bucket = b, files = fs,
                     trace = [annotate, sign, LogError (Rejected sign)]\<rparr>)
         | Some u \<Rightarrow>
             (let req =
                \<lparr>req_method = ''POST'',
                 req_url =
                   cloudflareBaseURL env @ ''/'' @ cloudflareAccountId env @ ''/stream/copy'',
                 req_headers =
                   [(''Authorization'', ''Bearer '' @ cloudflareApiToken env),
                    (''Content-Type'', ''application/json'')],
                 req_data =
                   \<lparr>body_url = u,
                    body_meta =
                      \<lparr>meta_name =
                         path_format env (path_basename env p (path_extname env p))
                           (path_extname env p),
                       meta_path = p,
                       meta_contentURI = u,
                       meta_contentRef = p\<rparr>\<rparr>\<rparr>
              in run =
                   (if rejects env (HttpPost req) then Inl (Rejected (HttpPost req)) else Inr (),
                    \<lparr>bucket = b, files = fs,
                     trace =
                       [annotate, sign, HttpPost req,
                        if rejects env (HttpPost req) then LogError (Rejected (HttpPost req))
                        else Log [''Processing video finished'']]\<rparr>)))"
proof (intro impI)
  assume h: "passes_guard ''video/'' obj p \<and>
   annotateVideo_reply env (gcs_uri obj p) = Some r \<and>
   annotationResults r \<noteq> Some [] \<and>
   \<not> any_frame_flagged (reply_frames r)"
  then have v: "videoSafeSearchDetection_result r = Inr False"
    by (simp add: unflagged_verdict)
  from h v show "let expires = Date_now env + 3600000;
          annotate = AnnotateVideo (gcs_uri obj p) [''EXPLICIT_CONTENT_DETECTION''];
          sign = GetSignedUrl p ''read'' expires;
          run = transcodeVideo env obj (start b fs)
      in case getSignedUrl_reply env p expires of
           None \<Rightarrow>
             run = (Inl (Rejected sign),
                    \<lparr>bucket = b, files = fs,
                     trace = [annotate, sign, LogError (Rejected sign)]\<rparr>)
         | Some u \<Rightarrow>
             (let req =
                \<lparr>req_method = ''POST'',
                 req_url =
                   cloudflareBaseURL env @ ''/'' @ cloudflareAccountId env @ ''/stream/copy'',
                 req_headers =
                   [(''Authorization'', ''Bearer '' @ cloudflareApiToken env),
                    (''Content-Type'', ''application/json'')],
                 req_data =
                   \<lparr>body_url = u,
                    body_meta =
                      \<lparr>meta_name =
                         path_format env (path_basename env p (path_extname env p))
                           (path_extname env p),
                       meta_path = p,
                       meta_contentURI = u,
                       meta_contentRef = p\<rparr>\<rparr>\<rparr>
              in run =
                   (if rejects env (HttpPost req) then Inl (Rejected (HttpPost req)) else Inr (),
                    \<lparr>bucket = b, files = fs,
                     trace =
                       [annotate, sign, HttpPost req,
                        if rejects env (HttpPost req) then LogError (Rejected (HttpPost req))
                        else Log [''Processing video finished'']]\<rparr>))"
    using transcodeVideo_accepted [of obj p env b fs]
    by (auto simp: requestTranscode_eq finish_def Let_def split: option.splits)
qed

theorem unflagged_video_requests_transcode_witness:
  "transcodeVideo (demo_env (demo_image_reply ''UNKNOWN'' ''UNKNOWN'')
       (video_frames_response (Some [\<lparr>pornographyLikelihood = Some 1\<rparr>])))
     demo_video (start demo_bucket Map.empty) =
   (Inr (),
    \<lparr>bucket = demo_bucket, files = Map.empty,
     trace =
       [AnnotateVideo ''gs://media/clip.mp4'' [''EXPLICIT_CONTENT_DETECTION''],
        GetSignedUrl ''clip.mp4'' ''read'' 1700003600000,
        HttpPost demo_request,
        Log [''Processing video finished'']]\<rparr>)"
  using unflagged_video_requests_transcode [of demo_video "''clip.mp4''"
      "demo_env (demo_image_reply ''UNKNOWN'' ''UNKNOWN'')
         (video_frames_response (Some [\<lparr>pornographyLikelihood = Some 1\<rparr>]))"
      "video_frames_response (Some [\<lparr>pornographyLikelihood = Some 1\<rparr>])"
      demo_bucket Map.empty]
    demo_video_passes
  by (simp add: demo_defs verdict_defs demo_video_def demo_extname_def demo_basename_def Let_def
        reply_frames_def any_frame_flagged_def flagging_def demo_request_def)


text \<open>
  C9. No run of the video handler both changes an object of the bucket and posts to
  the transcoding service; a run that posts leaves bucket and local files untouched.
\<close>

theorem replace_and_transcode_exclusive:
  "\<not> (list_ex is_storage_mutation (trace (snd (transcodeVideo env obj (start b fs)))) \<and>
      list_ex is_post (trace (snd (transcodeVideo env obj (start b fs))))) \<and>
   (list_ex is_post (trace (snd (transcodeVideo env obj (start b fs)))) \<longrightarrow>
      bucket (snd (transcodeVideo env obj (start b fs))) = b \<and>
      files (snd (transcodeVideo env obj (start b fs))) = fs)"
proof -
  from guard_cases [of "''video/''" obj]
  consider p where "passes_guard ''video/'' obj p"
    | "path_absent obj \<or> lacks_marker ''video/'' obj" by blast
  then show ?thesis
  proof cases
    case 1
    show ?thesis
      using replaceFlagged_no_post [of "''Processing video finished''" env
          REPLACEMENT_VIDEO_FILE_PATH p
          "\<lparr>bucket = b, files = fs,
            trace = [AnnotateVideo (gcs_uri obj p) [''EXPLICIT_CONTENT_DETECTION'']]\<rparr>"]
        requestTranscode_frame [of "''Processing video finished''" env p
          "\<lparr>bucket = b, files = fs,
            trace = [AnnotateVideo (gcs_uri obj p) [''EXPLICIT_CONTENT_DETECTION'']]\<rparr>"]
      by (simp add: transcodeVideo_accepted [OF 1] Let_def split: option.splits sum.splits)
         (simp add: finish_def)
  next
    case 2
    then show ?thesis by (simp add: transcodeVideo_rejected)
  qed
qed

theorem replace_and_transcode_exclusive_witness:
  "list_ex is_storage_mutation (trace (snd (transcodeVideo
       (demo_env (demo_image_reply ''UNKNOWN'' ''UNKNOWN'')
          (video_frames_response (Some [\<lparr>pornographyLikelihood = Some 5\<rparr>])))
       demo_video (start demo_bucket Map.empty)))) \<and>
   \<not> list_ex is_post (trace (snd (transcodeVideo
       (demo_env (demo_image_reply ''UNKNOWN'' ''UNKNOWN'')
          (video_frames_response (Some [\<lparr>pornographyLikelihood = Some 5\<rparr>])))
       demo_video (start demo_bucket Map.empty)))) \<and>
   list_ex is_post (trace (snd (transcodeVideo
       (demo_env (demo_image_reply ''UNKNOWN'' ''UNKNOWN'')
          (video_frames_response (Some [\<lparr>pornographyLikelihood = Some 2\<rparr>])))
       demo_video (start demo_bucket Map.empty)))) \<and>
   bucket (snd (transcodeVideo
       (demo_env (demo_image_reply ''UNKNOWN'' ''UNKNOWN'')
          (video_frames_response (Some [\<lparr>pornographyLikelihood = Some 2\<rparr>])))
       demo_video (start demo_bucket Map.empty))) = demo_bucket"
  using replace_and_transcode_exclusive [of
      "demo_env (demo_image_reply ''UNKNOWN'' ''UNKNOWN'')
          (video_frames_response (Some [\<lparr>pornographyLikelihood = Some 5\<rparr>]))"
      demo_video demo_bucket Map.empty]
    replace_and_transcode_exclusive [of
      "demo_env (demo_image_reply ''UNKNOWN'' ''UNKNOWN'')
          (video_frames_response (Some [\<lparr>pornographyLikelihood = Some 2\<rparr>]))"
      demo_video demo_bucket Map.empty]
  by (simp add: transcodeVideo_accepted [OF demo_video_passes] replaceFlagged_eq
        requestTranscode_eq finish_def Let_def demo_defs verdict_defs demo_event_simps)

section \<open>The placeholders\<close>

text \<open>
  C8, as stated, fails: an image event whose own path is the placeholder's, when
  flagged, deletes the placeholder (and the download that follows finds nothing).
\<close>

theorem flagged_placeholder_upload_deletes_placeholder:
  "demo_bucket REPLACEMENT_IMAGE_FILE_PATH = Some [9, 9] \<and>
   bucket (snd (processImages
       (demo_env (demo_image_reply ''LIKELY'' ''UNKNOWN'') (video_frames_response None))
       (demo_image\<lparr>event_name := Some ''prohibited.png''\<rparr>)
       (start demo_bucket Map.empty))) REPLACEMENT_IMAGE_FILE_PATH = None \<and>
   list_ex (mutates REPLACEMENT_IMAGE_FILE_PATH) (trace (snd (processImages
       (demo_env (demo_image_reply ''LIKELY'' ''UNKNOWN'') (video_frames_response None))
       (demo_image\<lparr>event_name := Some ''prohibited.png''\<rparr>)
       (start demo_bucket Map.empty))))"
proof -
  have g: "passes_guard ''image/'' (demo_image\<lparr>event_name := Some ''prohibited.png''\<rparr>)
             ''prohibited.png''"
    by (simp add: passes_guard_def demo_image_def)
  show ?thesis
    by (simp add: processImages_accepted [OF g] replaceFlagged_eq finish_def
        Let_def demo_defs verdict_defs)
qed

text \<open>
  C8, amended. A handler deletes or overwrites a placeholder only in a run on an event
  whose own path is that placeholder's, that passes the handler's guard and that the
  handler's verdict flags. In every other run (another path, a failed guard, an unflagged
  or failed classification, the other handler's run on the placeholder's own upload) no
  delete of it and no upload to it is issued and the bucket holds the same bytes there
  afterwards.
\<close>

theorem placeholders_mutated_only_by_own_flagged_event:
  "q = REPLACEMENT_IMAGE_FILE_PATH \<or> q = REPLACEMENT_VIDEO_FILE_PATH \<longrightarrow>
     list_ex (mutates q) (trace (snd (processImages env obj (start b fs)))) =
       (passes_guard ''image/'' obj q \<and>
        (\<exists>r. safeSearchDetection_reply env (gcs_uri obj q) = Some r \<and>
             imageSafeSearchDetection_result r)) \<and>
     (\<not> list_ex (mutates q) (trace (snd (processImages env obj (start b fs)))) \<longrightarrow>
        bucket (snd (processImages env obj (start b fs))) q = b q) \<and>
     list_ex (mutates q) (trace (snd (transcodeVideo env obj (start b fs)))) =
       (passes_guard ''video/'' obj q \<and>
        (\<exists>r. annotateVideo_reply env (gcs_uri obj q) = Some r \<and>
             videoSafeSearchDetection_result r = Inr True)) \<and>
     (\<not> list_ex (mutates q) (trace (snd (transcodeVideo env obj (start b fs)))) \<longrightarrow>
        bucket (snd (transcodeVideo env obj (start b fs))) q = b q)"
  using processImages_mutates_iff [of q env obj b fs] processImages_unmutated [of q env obj b fs]
    transcodeVideo_mutates_iff [of q env obj b fs] transcodeVideo_unmutated [of q env obj b fs]
  by blast

theorem placeholders_mutated_only_by_own_flagged_event_witness:
  "bucket (snd (processImages
       (demo_env (demo_image_reply ''LIKELY'' ''UNKNOWN'') (video_frames_response None))
       demo_image (start demo_bucket Map.empty))) ''prohibited.png'' = Some [9, 9] \<and>
   bucket (snd (processImages
       (demo_env (demo_image_reply ''UNLIKELY'' ''UNKNOWN'') (video_frames_response None))
       (demo_image\<lparr>event_name := Some ''prohibited.png''\<rparr>)
       (start demo_bucket Map.empty))) ''prohibited.png'' = Some [9, 9] \<and>
   bucket (snd (transcodeVideo
       (demo_env (demo_image_reply ''LIKELY'' ''UNKNOWN'') (video_frames_response None))
       (demo_image\<lparr>event_name := Some ''prohibited.png''\<rparr>)
       (start demo_bucket Map.empty))) ''prohibited.png'' = Some [9, 9]"
  using placeholders_mutated_only_by_own_flagged_event [of "''prohibited.png''"
      "demo_env (demo_image_reply ''LIKELY'' ''UNKNOWN'') (video_frames_response None)"
      demo_image demo_bucket Map.empty]
    placeholders_mutated_only_by_own_flagged_event [of "''prohibited.png''"
      "demo_env (demo_image_reply ''UNLIKELY'' ''UNKNOWN'') (video_frames_response None)"
      "demo_image\<lparr>event_name := Some ''prohibited.png''\<rparr>" demo_bucket Map.empty]
    placeholders_mutated_only_by_own_flagged_event [of "''prohibited.png''"
      "demo_env (demo_image_reply ''LIKELY'' ''UNKNOWN'') (video_frames_response None)"
      "demo_image\<lparr>event_name := Some ''prohibited.png''\<rparr>" demo_bucket Map.empty]
  by (simp add: REPLACEMENT_IMAGE_FILE_PATH_def demo_image_def demo_bucket_def passes_guard_def
        demo_env_def demo_image_reply_def verdict_defs)


section \<open>Determinism\<close>

text \<open>
  C10, as stated, fails: the claim fixes the event, the clock and the replies of the
  classifier and of storage. With all of these fixed, the answer of the transcoding
  service still decides the result: the same run returns null when the POST is accepted
  and rethrows when it is refused. The configured account id decides the request: with
  another id the POST goes to another URL.
\<close>

theorem transcoding_reply_changes_the_result:
  "fst (transcodeVideo
      (demo_env (demo_image_reply ''UNKNOWN'' ''UNKNOWN'')
         (video_frames_response (Some [\<lparr>pornographyLikelihood = Some 1\<rparr>])))
      demo_video (start demo_bucket Map.empty)) = Inr () \<and>
   fst (transcodeVideo
      ((demo_env (demo_image_reply ''UNKNOWN'' ''UNKNOWN'')
         (video_frames_response (Some [\<lparr>pornographyLikelihood = Some 1\<rparr>])))
         \<lparr>rejects := is_post\<rparr>)
      demo_video (start demo_bucket Map.empty)) = Inl (Rejected (HttpPost demo_request)) \<and>
   HttpPost demo_request \<in> set (trace (snd (transcodeVideo
      (demo_env (demo_image_reply ''UNKNOWN'' ''UNKNOWN'')
         (video_frames_response (Some [\<lparr>pornographyLikelihood = Some 1\<rparr>])))
      demo_video (start demo_bucket Map.empty)))) \<and>
   HttpPost demo_request \<notin> set (trace (snd (transcodeVideo
      ((demo_env (demo_image_reply ''UNKNOWN'' ''UNKNOWN'')
         (video_frames_response (Some [\<lparr>pornographyLikelihood = Some 1\<rparr>])))
         \<lparr>cloudflareAccountId := ''other''\<rparr>)
      demo_video (start demo_bucket Map.empty))))"
  by (simp add: transcodeVideo_accepted [OF demo_video_passes] requestTranscode_eq finish_def
        Let_def demo_defs verdict_defs demo_event_simps demo_request_def demo_extname_def
        demo_basename_def)

text \<open>
  C10, amended. A run is determined by the event, the bucket and local disk it starts
  from, the deployment (clock value, configuration values, \<^verbatim>\<open>path\<close> and \<^verbatim>\<open>os\<close>
  functions) and the answers of the services (classifier, storage, local file system,
  transcoding service) to the calls it makes: under a second environment whose services
  answer those calls alike, whatever they would answer to any other call, the handler
  gives the same result (null, or the same rethrown error), makes the same calls with
  the same arguments and leaves the same bucket and disk.
\<close>

theorem same_answers_same_run:
  "(same_deployment e1 e2 \<and>
    same_answers e1 e2 (trace (snd (processImages e1 obj (start b fs)))) \<longrightarrow>
      processImages e2 obj (start b fs) = processImages e1 obj (start b fs)) \<and>
   (same_deployment e1 e2 \<and>
    same_answers e1 e2 (trace (snd (transcodeVideo e1 obj (start b fs)))) \<longrightarrow>
      transcodeVideo e2 obj (start b fs) = transcodeVideo e1 obj (start b fs))"
  using processImages_agree [of e1 e2 obj b fs] transcodeVideo_agree [of e1 e2 obj b fs]
  by blast

theorem same_answers_same_run_witness:
  "processImages
     ((demo_env (demo_image_reply ''LIKELY'' ''UNKNOWN'') (video_frames_response None))
        \<lparr>safeSearchDetection_reply :=
           (\<lambda>uri. if uri = ''gs://media/a.png''
                   then Some (demo_image_reply ''LIKELY'' ''UNKNOWN'') else None),
         rejects := (\<lambda>a. a = Delete ''b.png'')\<rparr>)
     demo_image (start demo_bucket Map.empty) =
   processImages
     (demo_env (demo_image_reply ''LIKELY'' ''UNKNOWN'') (video_frames_response None))
     demo_image (start demo_bucket Map.empty) \<and>
   fst (processImages
     (demo_env (demo_image_reply ''LIKELY'' ''UNKNOWN'') (video_frames_response None))
     demo_image (start demo_bucket Map.empty)) = Inr ()"
  using same_answers_same_run [of
      "demo_env (demo_image_reply ''LIKELY'' ''UNKNOWN'') (video_frames_response None)"
      "(demo_env (demo_image_reply ''LIKELY'' ''UNKNOWN'') (video_frames_response None))
        \<lparr>safeSearchDetection_reply :=
           (\<lambda>uri. if uri = ''gs://media/a.png''
                   then Some (demo_image_reply ''LIKELY'' ''UNKNOWN'') else None),
         rejects := (\<lambda>a. a = Delete ''b.png'')\<rparr>"
      demo_image demo_bucket Map.empty]
  by (simp add: processImages_accepted [OF demo_image_passes] replaceFlagged_eq finish_def
        Let_def demo_defs verdict_defs demo_event_simps same_deployment_def same_answers_def)

end
